theory Spec2Isabelle
  imports Main "HOL-Library.Sublist"
begin

section \<open>Strings\<close>

text \<open>
  A JavaScript string is modelled by its UTF-8 encoding, a list of 8-bit characters.
  \<open>toLowerCase\<close> maps the letters A-Z to a-z. Outside ASCII the lower-casing of
  JavaScript yields bytes outside ASCII again, but for the Kelvin sign (which gives k) and
  the dotted capital I (which gives i followed by a combining mark); the snippets this
  program looks for are ASCII, contain no k and do not end in i, so whether a lower-cased
  string contains one of them is not affected.
\<close>

definition toLowerCase_char :: "char \<Rightarrow> char" where
  "toLowerCase_char c =
     (case map_of (zip ''ABCDEFGHIJKLMNOPQRSTUVWXYZ'' ''abcdefghijklmnopqrstuvwxyz'') c of
        Some l \<Rightarrow> l
      | None \<Rightarrow> c)"

definition toLowerCase :: "string \<Rightarrow> string" where
  "toLowerCase s = map toLowerCase_char s"

text \<open>\<open>text.includes(snippet)\<close>: the snippet occurs as a contiguous substring.\<close>

fun str_includes :: "string \<Rightarrow> string \<Rightarrow> bool" where
  "str_includes [] snippet = (snippet = [])"
| "str_includes (c # cs) snippet = (prefix snippet (c # cs) \<or> str_includes cs snippet)"

text \<open>
  The white space that \<open>trim\<close> and \<open>trimEnd\<close> remove, by the length of its encoding:
  tab, line feed, vertical tab, form feed, carriage return and space; the no-break space
  U+00A0; and U+1680, U+2000 to U+200A, the line and paragraph separators U+2028 and
  U+2029, U+202F, U+205F, U+3000 and the byte order mark U+FEFF.
\<close>

definition whiteSpace1 :: "char list" where
  "whiteSpace1 = [CHR 0x09, CHR 0x0A, CHR 0x0B, CHR 0x0C, CHR 0x0D, CHR 0x20]"

definition whiteSpace2 :: "(char \<times> char) list" where
  "whiteSpace2 = [(CHR 0xC2, CHR 0xA0)]"

definition whiteSpace3 :: "(char \<times> char \<times> char) list" where
  "whiteSpace3 =
     [(CHR 0xE1, CHR 0x9A, CHR 0x80),
      (CHR 0xE2, CHR 0x80, CHR 0x80), (CHR 0xE2, CHR 0x80, CHR 0x81),
      (CHR 0xE2, CHR 0x80, CHR 0x82), (CHR 0xE2, CHR 0x80, CHR 0x83),
      (CHR 0xE2, CHR 0x80, CHR 0x84), (CHR 0xE2, CHR 0x80, CHR 0x85),
      (CHR 0xE2, CHR 0x80, CHR 0x86), (CHR 0xE2, CHR 0x80, CHR 0x87),
      (CHR 0xE2, CHR 0x80, CHR 0x88), (CHR 0xE2, CHR 0x80, CHR 0x89),
      (CHR 0xE2, CHR 0x80, CHR 0x8A),
      (CHR 0xE2, CHR 0x80, CHR 0xA8), (CHR 0xE2, CHR 0x80, CHR 0xA9),
      (CHR 0xE2, CHR 0x80, CHR 0xAF), (CHR 0xE2, CHR 0x81, CHR 0x9F),
      (CHR 0xE3, CHR 0x80, CHR 0x80), (CHR 0xEF, CHR 0xBB, CHR 0xBF)]"

text \<open>
  \<open>trimEnd\<close> on the reversed string: white space is taken off the end, one character
  of one, two or three bytes at a time, until the string ends in something else.
\<close>

fun dropTrailingRev :: "string \<Rightarrow> string" where
  "dropTrailingRev (a # b # c # rest) =
     (if a \<in> set whiteSpace1 then dropTrailingRev (b # c # rest)
      else if (b, a) \<in> set whiteSpace2 then dropTrailingRev (c # rest)
      else if (c, b, a) \<in> set whiteSpace3 then dropTrailingRev rest
      else a # b # c # rest)"
| "dropTrailingRev [a, b] =
     (if a \<in> set whiteSpace1 then dropTrailingRev [b]
      else if (b, a) \<in> set whiteSpace2 then []
      else [a, b])"
| "dropTrailingRev [a] = (if a \<in> set whiteSpace1 then [] else [a])"
| "dropTrailingRev [] = []"

definition trimEnd :: "string \<Rightarrow> string" where
  "trimEnd s = rev (dropTrailingRev (rev s))"

fun trimStart :: "string \<Rightarrow> string" where
  "trimStart (a # b # c # rest) =
     (if a \<in> set whiteSpace1 then trimStart (b # c # rest)
      else if (a, b) \<in> set whiteSpace2 then trimStart (c # rest)
      else if (a, b, c) \<in> set whiteSpace3 then trimStart rest
      else a # b # c # rest)"
| "trimStart [a, b] =
     (if a \<in> set whiteSpace1 then trimStart [b]
      else if (a, b) \<in> set whiteSpace2 then []
      else [a, b])"
| "trimStart [a] = (if a \<in> set whiteSpace1 then [] else [a])"
| "trimStart [] = []"

definition trim :: "string \<Rightarrow> string" where
  "trim s = trimStart (trimEnd s)"

text \<open>
  The words of the specification, to compare the code with. The white space of
  ECMAScript (WhiteSpace and LineTerminator), each character in UTF-8:
\<close>

definition ecmaWhiteSpace :: "string list" where
  "ecmaWhiteSpace =
     [[CHR 0x09], [CHR 0x0A], [CHR 0x0B], [CHR 0x0C], [CHR 0x0D], [CHR 0x20],
      [CHR 0xC2, CHR 0xA0],
      [CHR 0xE1, CHR 0x9A, CHR 0x80],
      [CHR 0xE2, CHR 0x80, CHR 0x80], [CHR 0xE2, CHR 0x80, CHR 0x81],
      [CHR 0xE2, CHR 0x80, CHR 0x82], [CHR 0xE2, CHR 0x80, CHR 0x83],
      [CHR 0xE2, CHR 0x80, CHR 0x84], [CHR 0xE2, CHR 0x80, CHR 0x85],
      [CHR 0xE2, CHR 0x80, CHR 0x86], [CHR 0xE2, CHR 0x80, CHR 0x87],
      [CHR 0xE2, CHR 0x80, CHR 0x88], [CHR 0xE2, CHR 0x80, CHR 0x89],
      [CHR 0xE2, CHR 0x80, CHR 0x8A],
      [CHR 0xE2, CHR 0x80, CHR 0xA8], [CHR 0xE2, CHR 0x80, CHR 0xA9],
      [CHR 0xE2, CHR 0x80, CHR 0xAF], [CHR 0xE2, CHR 0x81, CHR 0x9F],
      [CHR 0xE3, CHR 0x80, CHR 0x80], [CHR 0xEF, CHR 0xBB, CHR 0xBF]]"

text \<open>
  Two characters are the same letter when they are equal or the first is the capital of
  the second; a text contains a snippet, ignoring case, when a stretch of the text is the
  snippet letter for letter.
\<close>

definition sameLetter :: "char \<Rightarrow> char \<Rightarrow> bool" where
  "sameLetter c d =
     (c = d \<or> (c, d) \<in> set (zip ''ABCDEFGHIJKLMNOPQRSTUVWXYZ'' ''abcdefghijklmnopqrstuvwxyz''))"

definition containsIgnoringCase :: "string \<Rightarrow> string \<Rightarrow> bool" where
  "containsIgnoringCase t snippet =
     (\<exists>before found after. t = before @ found @ after \<and> list_all2 sameLetter found snippet)"

text \<open>
  A text cut at its line breaks: pieces free of line feeds, each followed by the line
  break that ends it, a line feed alone only where no carriage return stands before it.
\<close>

definition lineBreaks :: "(string \<times> string) list \<Rightarrow> bool" where
  "lineBreaks pairs =
     (\<forall>(piece, sep) \<in> set pairs.
        CHR 0x0A \<notin> set piece
        \<and> (sep = [CHR 0x0A] \<and> (piece = [] \<or> last piece \<noteq> CHR 0x0D)
            \<or> sep = [CHR 0x0D, CHR 0x0A]))"

text \<open>
  A name or description suggests a framework when it is there and contains one of the
  indicators, ignoring case.
\<close>

definition suggests :: "string option \<Rightarrow> string list \<Rightarrow> bool" where
  "suggests txt indicators =
     (\<exists>t. txt = Some t \<and> (\<exists>indicator \<in> set indicators. containsIgnoringCase t indicator))"

text \<open>\<open>parts.join(sep)\<close>\<close>

fun join :: "string \<Rightarrow> string list \<Rightarrow> string" where
  "join sep [] = []"
| "join sep [x] = x"
| "join sep (x # y # ys) = x @ sep @ join sep (y # ys)"

section \<open>lib/workspace.ts: the run-command inferencer\<close>

datatype PackageManager = npm | pnpm | yarn

datatype WorkspaceFramework = fw_next | fw_vite | create_react_app | custom | unknown

text \<open>
  A JSON object with string values is an association list in \<open>Object.keys\<close> order; a
  property is read with \<open>map_of\<close>. An optional field is an \<open>option\<close>.
\<close>

type_synonym js_object = "(string \<times> string) list"

record PackageJson =
  scripts :: "js_object option"
  dependencies :: "js_object option"
  devDependencies :: "js_object option"

record DevCommandSpec =
  framework :: WorkspaceFramework
  scriptName :: string
  command :: string
  args :: "string list"
  display :: string
  port :: nat

record BuiltCommand =
  bc_command :: string
  bc_args :: "string list"
  bc_display :: string

type_synonym PromptFn = "string \<Rightarrow> string \<Rightarrow> string option"

definition buildCommand :: "PackageManager \<Rightarrow> string \<Rightarrow> BuiltCommand" where
  "buildCommand packageManager script =
     (if packageManager = npm then
        \<lparr>bc_command = ''npm'', bc_args = [''run'', script], bc_display = ''npm run '' @ script\<rparr>
      else if packageManager = yarn then
        \<lparr>bc_command = ''yarn'', bc_args = [script], bc_display = ''yarn '' @ script\<rparr>
      else
        \<lparr>bc_command = ''pnpm'', bc_args = [script], bc_display = ''pnpm '' @ script\<rparr>)"

text \<open>\<open>pkg.field ?? {}\<close>\<close>

definition orEmpty :: "js_object option \<Rightarrow> js_object" where
  "orEmpty obj = (case obj of None \<Rightarrow> [] | Some xs \<Rightarrow> xs)"

text \<open>\<open>{ ...a, ...b }\<close>: the properties of \<open>a\<close> overridden by those of \<open>b\<close>.\<close>

definition spread :: "js_object \<Rightarrow> js_object \<Rightarrow> (string \<rightharpoonup> string)" where
  "spread a b = map_of a ++ map_of b"

text \<open>\<open>key in obj\<close>\<close>

definition hasKey :: "(string \<rightharpoonup> string) \<Rightarrow> string \<Rightarrow> bool" where
  "hasKey obj k = (obj k \<noteq> None)"

text \<open>\<open>typeof scripts[name] === 'string'\<close>\<close>

definition hasScript :: "js_object \<Rightarrow> string \<Rightarrow> bool" where
  "hasScript scr name = (map_of scr name \<noteq> None)"

text \<open>\<open>normalisedScripts[name]?.includes(snippet)\<close>, undefined being falsy.\<close>

definition scriptIncludes :: "js_object \<Rightarrow> string \<Rightarrow> string \<Rightarrow> bool" where
  "scriptIncludes scr name snippet =
     (case map_of scr name of
        None \<Rightarrow> False
      | Some v \<Rightarrow> str_includes (toLowerCase v) snippet)"

text \<open>The heuristic chain of \<open>inferDevCommand\<close>: framework, script name and port.\<close>

definition inferHeuristic ::
  "js_object \<Rightarrow> (string \<rightharpoonup> string) \<Rightarrow> WorkspaceFramework \<times> string option \<times> nat" where
  "inferHeuristic scr deps =
     (if scriptIncludes scr ''dev'' ''next'' \<or> hasKey deps ''next''
         \<or> scriptIncludes scr ''dev'' ''turbo dev'' then
        (fw_next, Some ''dev'', 3000)
      else if scriptIncludes scr ''dev'' ''vite'' \<or> hasKey deps ''vite'' then
        (fw_vite, Some ''dev'', 5173)
      else if scriptIncludes scr ''start'' ''react-scripts'' \<or> hasKey deps ''react-scripts'' then
        (create_react_app, Some ''start'', 3000)
      else if hasScript scr ''dev'' then
        (custom, Some ''dev'', 3000)
      else if hasScript scr ''start'' then
        (custom, Some ''start'', 3000)
      else
        (unknown, None, 3000))"

text \<open>The interactive fallback, entered when the heuristics chose no script.\<close>

definition promptForScript ::
  "js_object \<Rightarrow> PromptFn option \<Rightarrow> WorkspaceFramework \<Rightarrow> WorkspaceFramework \<times> string option" where
  "promptForScript scr promptFn fw =
     (let availableScripts = map fst scr in
      case promptFn of
        None \<Rightarrow> (fw, None)
      | Some ask \<Rightarrow>
          (case availableScripts of
             [] \<Rightarrow> (fw, None)
           | first # _ \<Rightarrow>
               (let suggested = (if ''dev'' \<in> set availableScripts then ''dev'' else first);
                    response = ask
                      (''No dev script detected. Enter the package.json script to run (available: ''
                         @ join '', '' availableScripts @ '')'')
                      suggested
                in case response of
                     None \<Rightarrow> (fw, None)
                   | Some r \<Rightarrow> (if trim r \<noteq> [] then (custom, Some (trim r)) else (fw, None)))))"

definition inferDevCommand ::
  "PackageJson option \<Rightarrow> PackageManager \<Rightarrow> PromptFn option \<Rightarrow> DevCommandSpec option" where
  "inferDevCommand pkgOpt packageManager promptFn =
     (case pkgOpt of
        None \<Rightarrow> None
      | Some pkg \<Rightarrow>
          (let scr = orEmpty (scripts pkg);
               deps = spread (orEmpty (dependencies pkg)) (orEmpty (devDependencies pkg));
               (fw0, name0, prt) = inferHeuristic scr deps;
               (fw, name) = (case name0 of
                               Some n \<Rightarrow> (fw0, Some n)
                             | None \<Rightarrow> promptForScript scr promptFn fw0)
           in case name of
                None \<Rightarrow> None
              | Some n \<Rightarrow>
                  (let built = buildCommand packageManager n
                   in Some \<lparr>framework = fw, scriptName = n, command = bc_command built,
                             args = bc_args built, display = bc_display built, port = prt\<rparr>)))"

section \<open>lib/workspace-detector.ts: the template detector\<close>

datatype WorkspaceTemplateId = nextjs_starter | vite_react_starter | cra_starter

datatype Confidence = high | medium | low

record DetectionResult =
  templateId :: "WorkspaceTemplateId option"
  confidence :: Confidence
  reason :: string

record RepositoryManifest =
  packageJson :: "PackageJson option"
  hasPackageLock :: "bool option"
  hasYarnLock :: "bool option"
  hasPnpmLock :: "bool option"
  hasNextConfig :: "bool option"
  hasViteConfig :: "bool option"
  repoName :: "string option"
  repoDescription :: "string option"

text \<open>\<open>packageJson?.field || {}\<close>\<close>

definition fieldOrEmpty :: "PackageJson option \<Rightarrow> (PackageJson \<Rightarrow> js_object option) \<Rightarrow> js_object" where
  "fieldOrEmpty pj field =
     (case pj of
        None \<Rightarrow> []
      | Some p \<Rightarrow> (case field p of None \<Rightarrow> [] | Some obj \<Rightarrow> obj))"

text \<open>
  \<open>if (obj.key)\<close>: the property is there and its value is truthy. The values are strings,
  and the only falsy string is the empty one.
\<close>

definition truthyProp :: "(string \<rightharpoonup> string) \<Rightarrow> string \<Rightarrow> bool" where
  "truthyProp obj k = (case obj k of None \<Rightarrow> False | Some v \<Rightarrow> v \<noteq> [])"

text \<open>\<open>flag || false\<close>\<close>

definition orFalse :: "bool option \<Rightarrow> bool" where
  "orFalse flag = (case flag of None \<Rightarrow> False | Some b \<Rightarrow> b)"

definition matchesIndicators :: "string option \<Rightarrow> string list \<Rightarrow> bool" where
  "matchesIndicators txt indicators =
     (case txt of
        None \<Rightarrow> False
      | Some t \<Rightarrow>
          (if t = [] then False
           else (let lowercaseText = toLowerCase t
                 in list_ex (\<lambda>indicator. str_includes lowercaseText indicator) indicators)))"

definition detectNextJs ::
  "PackageJson option \<Rightarrow> bool \<Rightarrow> string option \<Rightarrow> string option \<Rightarrow> DetectionResult option" where
  "detectNextJs pj hasNextCfg name description =
     (let deps = fieldOrEmpty pj dependencies;
          devDeps = fieldOrEmpty pj devDependencies;
          allDeps = spread deps devDeps
      in if truthyProp allDeps ''next'' then
           Some \<lparr>templateId = Some nextjs_starter, confidence = high,
                  reason = ''Next.js dependency found in package.json''\<rparr>
         else if hasNextCfg then
           Some \<lparr>templateId = Some nextjs_starter, confidence = medium,
                  reason = ''Next.js configuration file found''\<rparr>
         else if matchesIndicators name [''next'', ''nextjs'', ''next-app'']
                 \<or> matchesIndicators description [''next.js'', ''next app'', ''nextjs''] then
           Some \<lparr>templateId = Some nextjs_starter, confidence = low,
                  reason = ''Repository name or description suggests Next.js''\<rparr>
         else None)"

definition detectVite ::
  "PackageJson option \<Rightarrow> bool \<Rightarrow> string option \<Rightarrow> string option \<Rightarrow> DetectionResult option" where
  "detectVite pj hasViteCfg name description =
     (let deps = fieldOrEmpty pj dependencies;
          devDeps = fieldOrEmpty pj devDependencies;
          allDeps = spread deps devDeps
      in if truthyProp allDeps ''vite'' then
           Some \<lparr>templateId = Some vite_react_starter, confidence = high,
                  reason = ''Vite dependency found in package.json''\<rparr>
         else if hasViteCfg then
           Some \<lparr>templateId = Some vite_react_starter, confidence = medium,
                  reason = ''Vite configuration file found''\<rparr>
         else if matchesIndicators name [''vite'', ''vite-app'', ''vite-react'']
                 \<or> matchesIndicators description [''vite'', ''vite app'', ''vite react''] then
           Some \<lparr>templateId = Some vite_react_starter, confidence = low,
                  reason = ''Repository name or description suggests Vite''\<rparr>
         else None)"

definition detectCreateReactApp ::
  "PackageJson option \<Rightarrow> bool \<Rightarrow> string option \<Rightarrow> string option \<Rightarrow> DetectionResult option" where
  "detectCreateReactApp pj hasYarn name description =
     (let deps = map_of (fieldOrEmpty pj dependencies);
          scr = map_of (fieldOrEmpty pj scripts);
          craScripts = [''start'', ''build'', ''test'', ''eject''];
          hasCraScripts = list_all (\<lambda>script. truthyProp scr script) craScripts
      in if truthyProp deps ''react-scripts'' then
           Some \<lparr>templateId = Some cra_starter, confidence = high,
                  reason = ''Create React App dependency (react-scripts) found in package.json''\<rparr>
         else if hasCraScripts \<and> truthyProp deps ''react'' \<and> truthyProp deps ''react-dom'' then
           Some \<lparr>templateId = Some cra_starter, confidence = medium,
                  reason = ''Create React App script pattern detected''\<rparr>
         else if hasYarn \<and> truthyProp deps ''react'' \<and> truthyProp deps ''react-dom'' then
           Some \<lparr>templateId = Some cra_starter, confidence = low,
                  reason = ''React project with yarn.lock detected (may be Create React App)''\<rparr>
         else if matchesIndicators name [''create-react-app'', ''cra-app'', ''react-app'']
                 \<or> matchesIndicators description [''create react app'', ''cra'', ''react app''] then
           Some \<lparr>templateId = Some cra_starter, confidence = low,
                  reason = ''Repository name or description suggests Create React App''\<rparr>
         else None)"

definition detectWorkspaceTemplate :: "RepositoryManifest \<Rightarrow> DetectionResult" where
  "detectWorkspaceTemplate manifest =
     (case detectNextJs (packageJson manifest) (orFalse (hasNextConfig manifest))
             (repoName manifest) (repoDescription manifest) of
        Some nextResult \<Rightarrow> nextResult
      | None \<Rightarrow>
     (case detectVite (packageJson manifest) (orFalse (hasViteConfig manifest))
             (repoName manifest) (repoDescription manifest) of
        Some viteResult \<Rightarrow> viteResult
      | None \<Rightarrow>
     (case detectCreateReactApp (packageJson manifest) (orFalse (hasYarnLock manifest))
             (repoName manifest) (repoDescription manifest) of
        Some craResult \<Rightarrow> craResult
      | None \<Rightarrow>
          \<lparr>templateId = None, confidence = low,
           reason = ''Unable to determine a suitable template. The repository may use a custom setup or unsupported framework.''\<rparr>)))"

text \<open>
  The signals of each framework, as the specification lists them: a declared dependency,
  a configuration file, a name or description indicator; for create-react-app also the
  script pattern and the yarn lockfile next to react and react-dom.
\<close>

definition mergedDeps :: "RepositoryManifest \<Rightarrow> (string \<rightharpoonup> string)" where
  "mergedDeps m = spread (fieldOrEmpty (packageJson m) dependencies)
                         (fieldOrEmpty (packageJson m) devDependencies)"

definition plainDeps :: "RepositoryManifest \<Rightarrow> (string \<rightharpoonup> string)" where
  "plainDeps m = map_of (fieldOrEmpty (packageJson m) dependencies)"

definition nextNamed :: "RepositoryManifest \<Rightarrow> bool" where
  "nextNamed m = (matchesIndicators (repoName m) [''next'', ''nextjs'', ''next-app'']
                  \<or> matchesIndicators (repoDescription m) [''next.js'', ''next app'', ''nextjs''])"

definition viteNamed :: "RepositoryManifest \<Rightarrow> bool" where
  "viteNamed m = (matchesIndicators (repoName m) [''vite'', ''vite-app'', ''vite-react'']
                  \<or> matchesIndicators (repoDescription m) [''vite'', ''vite app'', ''vite react''])"

definition craNamed :: "RepositoryManifest \<Rightarrow> bool" where
  "craNamed m = (matchesIndicators (repoName m) [''create-react-app'', ''cra-app'', ''react-app'']
                 \<or> matchesIndicators (repoDescription m) [''create react app'', ''cra'', ''react app''])"

definition reactPair :: "RepositoryManifest \<Rightarrow> bool" where
  "reactPair m = (truthyProp (plainDeps m) ''react'' \<and> truthyProp (plainDeps m) ''react-dom'')"

definition craScriptPattern :: "RepositoryManifest \<Rightarrow> bool" where
  "craScriptPattern m =
     (list_all (truthyProp (map_of (fieldOrEmpty (packageJson m) scripts)))
        [''start'', ''build'', ''test'', ''eject''] \<and> reactPair m)"

definition nextSignal :: "RepositoryManifest \<Rightarrow> bool" where
  "nextSignal m = (truthyProp (mergedDeps m) ''next'' \<or> orFalse (hasNextConfig m) \<or> nextNamed m)"

definition viteSignal :: "RepositoryManifest \<Rightarrow> bool" where
  "viteSignal m = (truthyProp (mergedDeps m) ''vite'' \<or> orFalse (hasViteConfig m) \<or> viteNamed m)"

definition craSignal :: "RepositoryManifest \<Rightarrow> bool" where
  "craSignal m = (truthyProp (plainDeps m) ''react-scripts'' \<or> craScriptPattern m
                  \<or> (orFalse (hasYarnLock m) \<and> reactPair m) \<or> craNamed m)"

text \<open>
  A key is declared in an object; all values of an object are non-empty strings; the
  dependencies, devDependencies and scripts of a bundle all have non-empty values.
\<close>

definition declares :: "js_object \<Rightarrow> string \<Rightarrow> bool" where
  "declares obj k = (k \<in> fst ` set obj)"

definition nonEmptyValues :: "js_object \<Rightarrow> bool" where
  "nonEmptyValues obj = list_all (\<lambda>entry. snd entry \<noteq> []) obj"

definition wellVersioned :: "RepositoryManifest \<Rightarrow> bool" where
  "wellVersioned m =
     (nonEmptyValues (fieldOrEmpty (packageJson m) dependencies)
      \<and> nonEmptyValues (fieldOrEmpty (packageJson m) devDependencies)
      \<and> nonEmptyValues (fieldOrEmpty (packageJson m) scripts))"

section \<open>state/app-store.ts: the observable workspace state\<close>

datatype LogLevel = lvl_info | lvl_warn | lvl_error

datatype WebContainerLifecycle =
  idle | initializing | installing_dependencies | starting_dev_server | ready | status_error

text \<open>
  A console line without its generated identifier and its timestamp, which come from a
  random generator and the clock.
\<close>

record ConsoleLine =
  line_text :: string
  line_level :: LogLevel

record WebContainerState =
  status :: WebContainerLifecycle
  installProgress :: nat
  lastMessage :: "string option"
  installPhase :: "string option"
  packageManager :: "PackageManager option"
  wcFramework :: "WorkspaceFramework option"
  devCommandLabel :: "string option"
  previewPort :: "nat option"
  previewUrl :: "string option"
  error :: "string option"
  logs :: "ConsoleLine list"

section \<open>lib/webcontainer-client.ts: the process output classifier\<close>

text \<open>\<open>text.split(/\r?\n/)\<close>: a line feed, with the carriage return before it if there is one, ends a piece.\<close>

fun consHead :: "char \<Rightarrow> string list \<Rightarrow> string list" where
  "consHead c [] = [[c]]"
| "consHead c (l # ls) = (c # l) # ls"

fun splitLines :: "string \<Rightarrow> string list" where
  "splitLines [] = [[]]"
| "splitLines [c] = (if c = CHR 0x0A then [[], []] else [[c]])"
| "splitLines (c # d # cs) =
     (if c = CHR 0x0A then [] # splitLines (d # cs)
      else if c = CHR 0x0D \<and> d = CHR 0x0A then [] # splitLines cs
      else consHead c (splitLines (d # cs)))"

text \<open>The level chosen for one line in the \<open>forEach\<close> of \<open>pipeProcessOutput\<close>.\<close>

definition levelOf :: "string \<Rightarrow> LogLevel" where
  "levelOf line =
     (let lower = toLowerCase line
      in if str_includes lower ''error'' \<or> str_includes lower ''err!'' then lvl_error
         else if str_includes lower ''warn'' then lvl_warn
         else lvl_info)"

text \<open>The lines one chunk contributes, in order, each with its level.\<close>

definition chunkLines :: "string \<Rightarrow> ConsoleLine list" where
  "chunkLines chunk =
     map (\<lambda>line. \<lparr>line_text = line, line_level = levelOf line\<rparr>)
       (filter (\<lambda>line. length line > 0) (map trimEnd (splitLines chunk)))"

text \<open>
  The store keeps the file-tree projection of the mounted tree; here it is kept as the tree
  it is built from.
\<close>

datatype FsNode = FsFile string | FsSymlink string | FsDirectory "(string \<times> FsNode) list"

type_synonym FileSystemTree = "(string \<times> FsNode) list"

record AppState =
  webContainer :: WebContainerState
  consoleLines :: "ConsoleLine list"
  fileTree :: "FileSystemTree option"

text \<open>
  \<open>setWebContainerState\<close> merges a partial state into the current one; the partial state
  is the record update it performs.
\<close>

definition setWebContainerState ::
  "(WebContainerState \<Rightarrow> WebContainerState) \<Rightarrow> AppState \<Rightarrow> AppState" where
  "setWebContainerState patch st = st\<lparr>webContainer := patch (webContainer st)\<rparr>"

definition pushConsoleLine :: "ConsoleLine \<Rightarrow> AppState \<Rightarrow> AppState" where
  "pushConsoleLine line st =
     st\<lparr>consoleLines := consoleLines st @ [line],
        webContainer := (webContainer st)\<lparr>logs := logs (webContainer st) @ [line]\<rparr>\<rparr>"

definition resetConsole :: "AppState \<Rightarrow> AppState" where
  "resetConsole st =
     st\<lparr>consoleLines := [], webContainer := (webContainer st)\<lparr>logs := []\<rparr>\<rparr>"

definition setFileTree :: "FileSystemTree \<Rightarrow> AppState \<Rightarrow> AppState" where
  "setFileTree tree st = st\<lparr>fileTree := Some tree\<rparr>"

section \<open>lib/workspace.ts: files, package manager, manifest\<close>

text \<open>\<open>targetPath.split('/').filter(Boolean)\<close>\<close>

fun splitSlash :: "string \<Rightarrow> string list" where
  "splitSlash [] = [[]]"
| "splitSlash (c # cs) =
     (if c = CHR ''/'' then [] # splitSlash cs else consHead c (splitSlash cs))"

definition pathSegments :: "string \<Rightarrow> string list" where
  "pathSegments targetPath = filter (\<lambda>seg. seg \<noteq> []) (splitSlash targetPath)"

fun readSegments :: "FileSystemTree \<Rightarrow> string list \<Rightarrow> string option" where
  "readSegments tree [] = None"
| "readSegments tree [segment] =
     (case map_of tree segment of
        Some (FsFile contents) \<Rightarrow> Some contents
      | _ \<Rightarrow> None)"
| "readSegments tree (segment # rest) =
     (case map_of tree segment of
        Some (FsDirectory children) \<Rightarrow> readSegments children rest
      | _ \<Rightarrow> None)"

definition readFileFromTree :: "FileSystemTree \<Rightarrow> string \<Rightarrow> string option" where
  "readFileFromTree tree targetPath = readSegments tree (pathSegments targetPath)"

definition hasFile :: "FileSystemTree \<Rightarrow> string \<Rightarrow> bool" where
  "hasFile tree target = (readFileFromTree tree target \<noteq> None)"

definition detectPackageManager :: "FileSystemTree \<Rightarrow> PackageManager" where
  "detectPackageManager tree =
     (if hasFile tree ''pnpm-lock.yaml'' \<or> hasFile tree ''pnpm-lock.yml'' then pnpm
      else if hasFile tree ''yarn.lock'' then yarn
      else npm)"

text \<open>
  \<open>JSON.parse\<close> is the platform's: it is a parameter, \<open>None\<close> when it throws. An empty
  file counts as no manifest.
\<close>

definition parsePackageJson ::
  "(string \<Rightarrow> PackageJson option) \<Rightarrow> FileSystemTree \<Rightarrow> PackageJson option" where
  "parsePackageJson jsonParse tree =
     (case readFileFromTree tree ''package.json'' of
        None \<Rightarrow> None
      | Some contents \<Rightarrow> (if contents = [] then None else jsonParse contents))"

section \<open>lib/workspace-templates.ts\<close>

record WorkspaceTemplate =
  tpl_id :: WorkspaceTemplateId
  defaultPort :: nat
  files :: FileSystemTree

text \<open>The three bundled templates; their file trees are a parameter.\<close>

definition WORKSPACE_TEMPLATES ::
  "(WorkspaceTemplateId \<Rightarrow> FileSystemTree) \<Rightarrow> WorkspaceTemplateId \<Rightarrow> WorkspaceTemplate" where
  "WORKSPACE_TEMPLATES starterFiles tid =
     (case tid of
        nextjs_starter \<Rightarrow>
          \<lparr>tpl_id = nextjs_starter, defaultPort = 3000, files = starterFiles nextjs_starter\<rparr>
      | vite_react_starter \<Rightarrow>
          \<lparr>tpl_id = vite_react_starter, defaultPort = 5173,
           files = starterFiles vite_react_starter\<rparr>
      | cra_starter \<Rightarrow>
          \<lparr>tpl_id = cra_starter, defaultPort = 3000, files = starterFiles cra_starter\<rparr>)"

definition getWorkspaceTemplateById ::
  "(WorkspaceTemplateId \<Rightarrow> FileSystemTree) \<Rightarrow> WorkspaceTemplateId option
     \<Rightarrow> WorkspaceTemplate option" where
  "getWorkspaceTemplateById starterFiles tid =
     (case tid of
        None \<Rightarrow> None
      | Some t \<Rightarrow> Some (WORKSPACE_TEMPLATES starterFiles t))"

section \<open>lib/webcontainer-client.ts: the orchestrator\<close>

datatype TerminationCause = user | restart

text \<open>A thrown value: an \<open>Error\<close> with its message, or another value with its string form.\<close>

datatype js_throw = JsError string | JsOther string

fun errorMessage :: "js_throw \<Rightarrow> string" where
  "errorMessage (JsError message) = message"
| "errorMessage (JsOther shown) = shown"

record RepositorySummary =
  owner :: string
  name :: string
  defaultBranch :: string
  selectedBranch :: "string option"
  workspaceTemplateId :: "WorkspaceTemplateId option"

record RepositorySyncResult =
  sync_files :: FileSystemTree
  sync_packageManager :: PackageManager
  sync_hasPackageJson :: bool

text \<open>
  The calls made to the sandbox host and to the repository synchronizer, in order. A kill
  is recorded with the termination cause the orchestrator holds for that process when the
  call is made.
\<close>

datatype HostCall =
    SyncRepository string string string
  | Boot nat
  | Teardown nat
  | Mount nat FileSystemTree
  | Spawn nat nat string "string list" "(string \<times> string) list"
  | Kill nat "TerminationCause option"

text \<open>
  The module's variables, the store, the browser console, and the sandbox side: the calls
  made so far, the processes alive (each with its instance), the instances carrying the
  two event listeners, and the next fresh identifier.
\<close>

record World =
  modulePromise :: "js_throw option option"
  webcontainerInstance :: "nat option"
  installProcess :: "nat option"
  devProcess :: "nat option"
  listenersBound :: bool
  installTerminationCause :: "TerminationCause option"
  devTerminationCause :: "TerminationCause option"
  appStore :: AppState
  browserConsole :: "string list"
  hostCalls :: "HostCall list"
  liveProcesses :: "(nat \<times> nat) list"
  listeners :: "nat list"
  nextId :: nat

text \<open>
  What the environment answers during one launch: \<open>None\<close> for a call that succeeds,
  \<open>Some e\<close> for one that throws or rejects with \<open>e\<close>.
\<close>

record LaunchEnv =
  hasWindow :: bool
  windowPrompt :: "PromptFn option"
  hasServiceWorker :: bool
  importOutcome :: "js_throw option"
  bootOutcome :: "js_throw option"
  syncProgress :: "string list"
  syncOutcome :: "js_throw + RepositorySyncResult"
  mountOutcome :: "js_throw option"
  installSpawnOutcome :: "js_throw option"
  devSpawnOutcome :: "js_throw option"
  killInstallOutcome :: "js_throw option"
  killDevOutcome :: "js_throw option"
  teardownOutcome :: "js_throw option"
  jsonParse :: "string \<Rightarrow> PackageJson option"
  starterFiles :: "WorkspaceTemplateId \<Rightarrow> FileSystemTree"

text \<open>The horizontal ellipsis of the messages, in UTF-8.\<close>

definition ellipsis :: string where
  "ellipsis = [CHR 0xE2, CHR 0x80, CHR 0xA6]"

text \<open>\<open>String(n)\<close> for a natural number.\<close>

definition digitChar :: "nat \<Rightarrow> char" where
  "digitChar d = ''0123456789'' ! d"

fun showNat :: "nat \<Rightarrow> string" where
  "showNat n = (if n < 10 then [digitChar n] else showNat (n div 10) @ [digitChar (n mod 10)])"

declare showNat.simps [simp del]

definition pmName :: "PackageManager \<Rightarrow> string" where
  "pmName pm = (case pm of npm \<Rightarrow> ''npm'' | pnpm \<Rightarrow> ''pnpm'' | yarn \<Rightarrow> ''yarn'')"

definition updateState :: "(WebContainerState \<Rightarrow> WebContainerState) \<Rightarrow> World \<Rightarrow> World" where
  "updateState patch w = w\<lparr>appStore := setWebContainerState patch (appStore w)\<rparr>"

definition pushLog :: "string \<Rightarrow> LogLevel \<Rightarrow> World \<Rightarrow> World" where
  "pushLog txt lvl w =
     w\<lparr>appStore := pushConsoleLine \<lparr>line_text = txt, line_level = lvl\<rparr> (appStore w)\<rparr>"

definition consoleError :: "string \<Rightarrow> World \<Rightarrow> World" where
  "consoleError message w = w\<lparr>browserConsole := browserConsole w @ [message]\<rparr>"

definition reportError :: "js_throw \<Rightarrow> World \<Rightarrow> World" where
  "reportError e w =
     (let message = errorMessage e;
          w1 = consoleError message w;
          w2 = updateState (\<lambda>s. s\<lparr>status := status_error, error := Some message,
                                   lastMessage := Some message\<rparr>) w1
      in pushLog message lvl_error w2)"

text \<open>The write handler of \<open>pipeProcessOutput\<close>: the chunk callback, then one log line per line.\<close>

definition pipeWrite :: "(string \<Rightarrow> World \<Rightarrow> World) \<Rightarrow> string \<Rightarrow> World \<Rightarrow> World" where
  "pipeWrite onChunk chunk w =
     foldl (\<lambda>acc line. pushLog (line_text line) (line_level line) acc) (onChunk chunk w)
       (chunkLines chunk)"

text \<open>The chunk callback of \<open>runInstall\<close>: the progress estimate.\<close>

definition installOnChunk :: "string \<Rightarrow> World \<Rightarrow> World" where
  "installOnChunk chunk w =
     (if trim chunk = [] then w
      else (let currentProgress = installProgress (webContainer (appStore w))
            in if currentProgress < 95
               then updateState (\<lambda>s. s\<lparr>installProgress := min 95 (currentProgress + 3)\<rparr>) w
               else w))"

text \<open>\<open>process.kill()\<close>: the request is recorded; the process is gone when the call succeeds.\<close>

definition killProcess :: "nat \<Rightarrow> TerminationCause option \<Rightarrow> js_throw option \<Rightarrow> World \<Rightarrow> World" where
  "killProcess pid cause outcome w =
     w\<lparr>hostCalls := hostCalls w @ [Kill pid cause],
       liveProcesses := (case outcome of
                           None \<Rightarrow> filter (\<lambda>p. fst p \<noteq> pid) (liveProcesses w)
                         | Some e \<Rightarrow> liveProcesses w)\<rparr>"

text \<open>A process has exited: it is no longer alive.\<close>

definition processExited :: "nat \<Rightarrow> World \<Rightarrow> World" where
  "processExited pid w = w\<lparr>liveProcesses := filter (\<lambda>p. fst p \<noteq> pid) (liveProcesses w)\<rparr>"

text \<open>\<open>instance.spawn(command, args, { env })\<close> when it succeeds: a fresh process.\<close>

definition spawnProcess ::
  "nat \<Rightarrow> string \<Rightarrow> string list \<Rightarrow> (string \<times> string) list \<Rightarrow> World \<Rightarrow> nat \<times> World" where
  "spawnProcess inst cmd arguments vars w =
     (nextId w,
      w\<lparr>hostCalls := hostCalls w @ [Spawn inst (nextId w) cmd arguments vars],
        liveProcesses := liveProcesses w @ [(nextId w, inst)],
        nextId := Suc (nextId w)\<rparr>)"

text \<open>\<open>instance.teardown()\<close>: when it succeeds the processes of the instance are gone.\<close>

definition teardownInstance :: "nat \<Rightarrow> js_throw option \<Rightarrow> World \<Rightarrow> World" where
  "teardownInstance inst outcome w =
     w\<lparr>hostCalls := hostCalls w @ [Teardown inst],
       liveProcesses := (case outcome of
                           None \<Rightarrow> filter (\<lambda>p. snd p \<noteq> inst) (liveProcesses w)
                         | Some e \<Rightarrow> liveProcesses w)\<rparr>"

definition bindInstanceEvents :: "nat \<Rightarrow> World \<Rightarrow> World" where
  "bindInstanceEvents inst w =
     (if listenersBound w then w
      else w\<lparr>listeners := listeners w @ [inst], listenersBound := True\<rparr>)"

text \<open>The two listeners that \<open>bindInstanceEvents\<close> registers.\<close>

definition onServerReady :: "nat \<Rightarrow> string \<Rightarrow> World \<Rightarrow> World" where
  "onServerReady prt url w =
     pushLog (''Development server is ready at '' @ url @ ''.'') lvl_info
       (updateState (\<lambda>s. s\<lparr>status := ready,
                            lastMessage := Some (''Development server ready on port ''
                                                   @ showNat prt @ ''.''),
                            previewPort := Some prt,
                            previewUrl := Some url,
                            installProgress := 100,
                            installPhase := None\<rparr>) w)"

definition onHostError :: "string option \<Rightarrow> World \<Rightarrow> World" where
  "onHostError eventMessage w =
     (let message = (case eventMessage of None \<Rightarrow> ''WebContainer runtime error.'' | Some m \<Rightarrow> m)
      in pushLog message lvl_error
           (updateState (\<lambda>s. s\<lparr>status := status_error, error := Some message,
                                lastMessage := Some message\<rparr>) w))"

definition loadModule :: "LaunchEnv \<Rightarrow> World \<Rightarrow> js_throw option \<times> World" where
  "loadModule env w =
     (case modulePromise w of
        None \<Rightarrow> (importOutcome env, w\<lparr>modulePromise := Some (importOutcome env)\<rparr>)
      | Some outcome \<Rightarrow> (outcome, w))"

definition bootWebContainer :: "LaunchEnv \<Rightarrow> World \<Rightarrow> (js_throw + nat) \<times> World" where
  "bootWebContainer env w =
     (case webcontainerInstance w of
        Some inst \<Rightarrow> (Inr inst, w)
      | None \<Rightarrow>
          (case loadModule env w of
             (Some e, w1) \<Rightarrow> (Inl e, w1)
           | (None, w1) \<Rightarrow>
               (if \<not> hasServiceWorker env then
                  (Inl (JsError ''WebContainers require service worker support, which is unavailable in this browser.''), w1)
                else
                  (case bootOutcome env of
                     Some e \<Rightarrow> (Inl e, w1)
                   | None \<Rightarrow>
                       (let inst = nextId w1;
                            w2 = w1\<lparr>hostCalls := hostCalls w1 @ [Boot inst],
                                    nextId := Suc inst\<rparr>;
                            w3 = w2\<lparr>webcontainerInstance := Some inst, listenersBound := False\<rparr>
                        in (Inr inst, bindInstanceEvents inst w3))))))"

text \<open>The three steps of \<open>prepareFreshInstance\<close>, in order.\<close>

definition killPriorInstall :: "LaunchEnv \<Rightarrow> World \<Rightarrow> World" where
  "killPriorInstall env w =
     (case installProcess w of
        None \<Rightarrow> w
      | Some p \<Rightarrow>
          (let wa = w\<lparr>installTerminationCause := Some restart\<rparr>;
               wb = killProcess p (installTerminationCause wa) (killInstallOutcome env) wa;
               wc = (case killInstallOutcome env of
                       None \<Rightarrow> wb
                     | Some e \<Rightarrow> consoleError ''Failed to terminate prior installation'' wb)
           in wc\<lparr>installProcess := None\<rparr>))"

definition killPriorDev :: "LaunchEnv \<Rightarrow> World \<Rightarrow> World" where
  "killPriorDev env w =
     (case devProcess w of
        None \<Rightarrow> w
      | Some p \<Rightarrow>
          (let wa = w\<lparr>devTerminationCause := Some restart\<rparr>;
               wb = killProcess p (devTerminationCause wa) (killDevOutcome env) wa;
               wc = (case killDevOutcome env of
                       None \<Rightarrow> wb
                     | Some e \<Rightarrow> consoleError ''Failed to terminate prior dev server'' wb)
           in wc\<lparr>devProcess := None\<rparr>))"

definition teardownPrior :: "LaunchEnv \<Rightarrow> World \<Rightarrow> World" where
  "teardownPrior env w =
     (case webcontainerInstance w of
        None \<Rightarrow> w
      | Some inst \<Rightarrow>
          (let wa = teardownInstance inst (teardownOutcome env) w;
               wb = (case teardownOutcome env of
                       None \<Rightarrow> wa
                     | Some e \<Rightarrow>
                         consoleError ''Failed to teardown previous WebContainer instance'' wa)
           in wb\<lparr>webcontainerInstance := None, listenersBound := False\<rparr>))"

definition prepareFreshInstance :: "LaunchEnv \<Rightarrow> World \<Rightarrow> World" where
  "prepareFreshInstance env w = teardownPrior env (killPriorDev env (killPriorInstall env w))"

text \<open>
  A launch runs up to the point where \<open>runInstall\<close> waits for the install process to exit,
  and goes on when that process has exited. What the second half needs from the first is
  the launch context.
\<close>

record LaunchContext =
  ctx_instance :: nat
  ctx_process :: nat
  ctx_devCommand :: DevCommandSpec
  ctx_usedFallback :: bool
  ctx_repository :: RepositorySummary

datatype LaunchOutcome = Rejected js_throw | Settled | AwaitingInstall LaunchContext

text \<open>The inner \<open>try\<close> of \<open>launchWorkspace\<close>: the synchronized tree, or the template.\<close>

definition resolveFiles ::
  "LaunchEnv \<Rightarrow> RepositorySummary \<Rightarrow> World
     \<Rightarrow> (js_throw + FileSystemTree \<times> PackageManager \<times> bool \<times> bool) \<times> World" where
  "resolveFiles env repository w =
     (let branch = (case selectedBranch repository of
                      None \<Rightarrow> defaultBranch repository
                    | Some b \<Rightarrow> (if b = [] then defaultBranch repository else b));
          w1 = w\<lparr>hostCalls := hostCalls w
                   @ [SyncRepository (owner repository) (name repository) branch]\<rparr>;
          w2 = foldl (\<lambda>acc message.
                        pushLog message lvl_info
                          (updateState (\<lambda>s. s\<lparr>lastMessage := Some message\<rparr>) acc))
                 w1 (syncProgress env)
      in case syncOutcome env of
           Inr syncResult \<Rightarrow>
             (Inr (sync_files syncResult, sync_packageManager syncResult,
                   sync_hasPackageJson syncResult, False),
              pushLog ''Repository files synced successfully.'' lvl_info w2)
         | Inl syncError \<Rightarrow>
             (let w3 = pushLog (''Repository sync failed: ''
                                  @ (case syncError of
                                       JsError message \<Rightarrow> message
                                     | JsOther shown \<Rightarrow> ''Unknown error'')) lvl_warn w2
              in case getWorkspaceTemplateById (starterFiles env)
                        (Some (case workspaceTemplateId repository of
                                 None \<Rightarrow> nextjs_starter
                               | Some t \<Rightarrow> t)) of
                   None \<Rightarrow>
                     (Inl (JsError (''No workspace template available for '' @ name repository
                                      @ '' and repository sync failed.'')), w3)
                 | Some template \<Rightarrow>
                     (Inr (files template, detectPackageManager (files template),
                           parsePackageJson (jsonParse env) (files template) \<noteq> None, True),
                      updateState
                        (\<lambda>s. s\<lparr>lastMessage := Some ''Using template fallback due to sync failure.''\<rparr>)
                        (pushLog ''Falling back to workspace template.'' lvl_warn w3))))"

text \<open>\<open>runInstall\<close> up to the wait for the exit of the process.\<close>

definition runInstall_begin ::
  "LaunchEnv \<Rightarrow> nat \<Rightarrow> PackageManager \<Rightarrow> World \<Rightarrow> (js_throw + nat) \<times> World" where
  "runInstall_begin env inst pm w =
     (case installSpawnOutcome env of
        Some e \<Rightarrow> (Inl e, w)
      | None \<Rightarrow>
          (case spawnProcess inst (pmName pm) [''install''] [] w of
             (process, w1) \<Rightarrow>
               (Inr process, w1\<lparr>installProcess := Some process,
                                installTerminationCause := None\<rparr>)))"

text \<open>\<open>runInstall\<close> from the exit of the process on.\<close>

definition runInstall_resume :: "nat \<Rightarrow> World \<Rightarrow> nat \<times> World" where
  "runInstall_resume exitCode w =
     (let w1 = w\<lparr>installProcess := None\<rparr>
      in if installTerminationCause w1 = Some restart then (exitCode, w1)
         else if installTerminationCause w1 = Some user then (exitCode, w1)
         else (exitCode,
               updateState
                 (\<lambda>s. s\<lparr>lastMessage := Some (if exitCode = 0
                                                then ''Dependencies installed successfully.''
                                                else ''Dependency installation encountered an error.'')\<rparr>)
                 w1))"

definition runDevServer ::
  "LaunchEnv \<Rightarrow> nat \<Rightarrow> DevCommandSpec \<Rightarrow> nat \<Rightarrow> World \<Rightarrow> (js_throw + unit) \<times> World" where
  "runDevServer env inst devCommand portHint w =
     (let vars = (if port devCommand \<noteq> 0 then [(''PORT'', showNat (port devCommand))] else [])
                   @ [(''BROWSER'', ''none'')]
      in case devSpawnOutcome env of
           Some e \<Rightarrow> (Inl e, w)
         | None \<Rightarrow>
             (case spawnProcess inst (command devCommand) (args devCommand) vars w of
                (process, w1) \<Rightarrow>
                  (let w2 = w1\<lparr>devProcess := Some process, devTerminationCause := None\<rparr>;
                       w3 = (if \<not> listenersBound w2 then bindInstanceEvents inst w2 else w2)
                   in (Inr (), updateState (\<lambda>s. s\<lparr>previewPort := Some portHint\<rparr>) w3))))"

text \<open>The handler that \<open>runDevServer\<close> attaches to the exit of the dev process.\<close>

definition devExitHandler :: "nat \<Rightarrow> nat \<Rightarrow> World \<Rightarrow> World" where
  "devExitHandler pid code w =
     (let w0 = processExited pid w;
          w1 = w0\<lparr>devProcess := None\<rparr>;
          cause = devTerminationCause w1;
          w2 = w1\<lparr>devTerminationCause := None\<rparr>
      in if cause = Some restart then
           pushLog ''Development server stopped in preparation for restart.'' lvl_info w2
         else if cause = Some user then w2
         else if code \<noteq> 0 then
           (let message = ''Dev server exited unexpectedly (code '' @ showNat code @ '').''
            in pushLog message lvl_error
                 (updateState (\<lambda>s. s\<lparr>status := status_error, lastMessage := Some message,
                                      error := Some message, previewPort := None,
                                      previewUrl := None\<rparr>) w2))
         else w2)"

text \<open>
  \<open>launchWorkspace\<close> from the switch to installing-dependencies up to the wait for the
  install process.
\<close>

definition launchInstallStage ::
  "LaunchEnv \<Rightarrow> RepositorySummary \<Rightarrow> nat \<Rightarrow> FileSystemTree \<Rightarrow> PackageManager \<Rightarrow> bool \<Rightarrow> World
     \<Rightarrow> (js_throw + LaunchContext) \<times> World" where
  "launchInstallStage env repository inst tree pm usedFallback w =
     (let w1 = updateState
                 (\<lambda>s. s\<lparr>status := installing_dependencies,
                         packageManager := Some pm,
                         installProgress := 5,
                         installPhase := Some ''starting'',
                         lastMessage := Some (''Installing dependencies with '' @ pmName pm
                                                @ ellipsis)\<rparr>) w;
          w2 = pushLog (''Installing dependencies with '' @ pmName pm @ ellipsis) lvl_info w1;
          pkg = parsePackageJson (jsonParse env) tree;
          promptFn = (if hasWindow env then windowPrompt env else None)
      in case inferDevCommand pkg pm promptFn of
           None \<Rightarrow>
             (Inl (JsError ''Unable to determine the development server command. Define a dev or start script in package.json.''),
              w2)
         | Some devCommand \<Rightarrow>
             (let w3 = updateState
                         (\<lambda>s. s\<lparr>wcFramework := Some (framework devCommand),
                                 devCommandLabel := Some (display devCommand),
                                 previewPort := None,
                                 previewUrl := None\<rparr>) w2
              in case runInstall_begin env inst pm w3 of
                   (Inl e, w4) \<Rightarrow> (Inl e, w4)
                 | (Inr process, w4) \<Rightarrow>
                     (Inr \<lparr>ctx_instance = inst, ctx_process = process,
                           ctx_devCommand = devCommand, ctx_usedFallback = usedFallback,
                           ctx_repository = repository\<rparr>, w4)))"

text \<open>The body of the outer \<open>try\<close> up to the wait for the install process.\<close>

definition launchTry ::
  "LaunchEnv \<Rightarrow> RepositorySummary \<Rightarrow> World \<Rightarrow> (js_throw + LaunchContext) \<times> World" where
  "launchTry env repository w =
     (case bootWebContainer env w of
        (Inl e, w1) \<Rightarrow> (Inl e, w1)
      | (Inr inst, w1) \<Rightarrow>
          (let w2 = pushLog ''WebContainer runtime ready.'' lvl_info w1;
               w3 = updateState (\<lambda>s. s\<lparr>lastMessage := Some (''Syncing repository files''
                                                                @ ellipsis)\<rparr>) w2
           in case resolveFiles env repository w3 of
                (Inl e, w4) \<Rightarrow> (Inl e, w4)
              | (Inr (tree, pm, hasPackageJson, usedFallback), w4) \<Rightarrow>
                  (let w5 = w4\<lparr>hostCalls := hostCalls w4 @ [Mount inst tree]\<rparr>
                   in case mountOutcome env of
                        Some e \<Rightarrow> (Inl e, w5)
                      | None \<Rightarrow>
                          (let w6 = w5\<lparr>appStore := setFileTree tree (appStore w5)\<rparr>;
                               w7 = pushLog (''Filesystem mounted inside WebContainer (''
                                               @ (if usedFallback then ''template''
                                                  else ''synced repository'') @ '').'')
                                      lvl_info w6
                           in if \<not> hasPackageJson then
                                (Inl (JsError ''No package.json found in the repository. Cannot determine project structure.''),
                                 w7)
                              else launchInstallStage env repository inst tree pm usedFallback
                                     w7))))"

text \<open>
  \<open>launchWorkspace\<close> between \<open>prepareFreshInstance\<close> and the \<open>try\<close>: the console is
  cleared and the state reset to initializing.
\<close>

definition launchPrologue :: "RepositorySummary \<Rightarrow> World \<Rightarrow> World" where
  "launchPrologue repository w =
     (let w1 = w\<lparr>appStore := resetConsole (appStore w)\<rparr>;
          w2 = updateState
                 (\<lambda>s. s\<lparr>status := initializing,
                         installProgress := 0,
                         installPhase := None,
                         packageManager := None,
                         wcFramework := Some unknown,
                         devCommandLabel := None,
                         previewPort := None,
                         previewUrl := None,
                         error := None,
                         logs := [],
                         lastMessage := Some (''Booting WebContainer runtime'' @ ellipsis)\<rparr>) w1
      in pushLog (''Launching workspace for '' @ owner repository @ ''/''
                    @ name repository @ ellipsis) lvl_info w2)"

text \<open>
  \<open>launchWorkspace\<close> after \<open>prepareFreshInstance\<close>, up to the wait for the install
  process: the \<open>try\<close> and its \<open>catch\<close>.
\<close>

definition launchBody :: "LaunchEnv \<Rightarrow> RepositorySummary \<Rightarrow> World \<Rightarrow> LaunchOutcome \<times> World" where
  "launchBody env repository w =
     (case launchTry env repository (launchPrologue repository w) of
        (Inl e, w4) \<Rightarrow> (Settled, reportError e w4)
      | (Inr ctx, w4) \<Rightarrow> (AwaitingInstall ctx, w4))"

text \<open>
  \<open>launchWorkspace\<close> from the call up to the wait for the install process:
  \<open>ensureClientEnvironment\<close>, \<open>prepareFreshInstance\<close>, then the body.
\<close>

definition launchWorkspace ::
  "LaunchEnv \<Rightarrow> RepositorySummary \<Rightarrow> World \<Rightarrow> LaunchOutcome \<times> World" where
  "launchWorkspace env repository w =
     (if \<not> hasWindow env then
        (Rejected (JsError ''WebContainers can only be used in the browser environment.''), w)
      else launchBody env repository (prepareFreshInstance env w))"

text \<open>The port hint that \<open>launchWorkspace\<close> hands to \<open>runDevServer\<close>.\<close>

definition portHintOf :: "LaunchEnv \<Rightarrow> LaunchContext \<Rightarrow> nat" where
  "portHintOf env ctx =
     (if ctx_usedFallback ctx then
        (case getWorkspaceTemplateById (starterFiles env)
                (Some (case workspaceTemplateId (ctx_repository ctx) of
                         None \<Rightarrow> nextjs_starter
                       | Some t \<Rightarrow> t)) of
           None \<Rightarrow> 3000
         | Some template \<Rightarrow> (if defaultPort template \<noteq> 0 then defaultPort template else 3000))
      else 3000)"

text \<open>
  \<open>launchWorkspace\<close> from the exit of the install process, with its exit code, to the end.
\<close>

definition launchResumeTry ::
  "LaunchEnv \<Rightarrow> LaunchContext \<Rightarrow> nat \<Rightarrow> World \<Rightarrow> (js_throw + unit) \<times> World" where
  "launchResumeTry env ctx exitCode w =
     (case runInstall_resume exitCode (processExited (ctx_process ctx) w) of
        (installExitCode, w1) \<Rightarrow>
          (if installTerminationCause w1 = Some user then (Inr (), w1)
           else if installExitCode \<noteq> 0 then
             (Inl (JsError (''Dependency installation failed with exit code ''
                              @ showNat installExitCode
                              @ ''. Check the console for details.'')), w1)
           else
             (let devCommand = ctx_devCommand ctx;
                  w2 = updateState
                         (\<lambda>s. s\<lparr>status := starting_dev_server,
                                 installProgress := 100,
                                 installPhase := None,
                                 lastMessage := Some (''Starting dev server ('' @ display devCommand
                                                        @ '')'' @ ellipsis)\<rparr>) w1;
                  w3 = pushLog (''Starting dev server via '' @ display devCommand @ ellipsis)
                         lvl_info w2
              in runDevServer env (ctx_instance ctx) devCommand (portHintOf env ctx) w3)))"

definition launchResume ::
  "LaunchEnv \<Rightarrow> LaunchContext \<Rightarrow> nat \<Rightarrow> World \<Rightarrow> LaunchOutcome \<times> World" where
  "launchResume env ctx exitCode w =
     (case launchResumeTry env ctx exitCode w of
        (Inl e, w1) \<Rightarrow> (Settled, reportError e w1)
      | (Inr u, w1) \<Rightarrow> (Settled, w1))"

text \<open>
  \<open>cancelInstallation\<close> and \<open>stopDevServer\<close>; the argument is what the kill call answers.
  The result is \<open>Inl\<close> when the call rejects.
\<close>

definition cancelInstallation :: "js_throw option \<Rightarrow> World \<Rightarrow> js_throw + World" where
  "cancelInstallation killOutcome w =
     (case installProcess w of
        None \<Rightarrow> Inr w
      | Some p \<Rightarrow>
          (let w1 = w\<lparr>installTerminationCause := Some user\<rparr>;
               w2 = killProcess p (installTerminationCause w1) killOutcome w1;
               w3 = (case killOutcome of
                       None \<Rightarrow> w2
                     | Some e \<Rightarrow> consoleError ''Failed to cancel installation'' w2);
               w4 = w3\<lparr>installProcess := None\<rparr>;
               w5 = updateState
                      (\<lambda>s. s\<lparr>status := idle,
                              installProgress := 0,
                              installPhase := None,
                              lastMessage := Some ''Installation cancelled by user.''\<rparr>) w4
           in Inr (pushLog ''Dependency installation cancelled by user request.'' lvl_warn w5)))"

definition stopDevServer :: "js_throw option \<Rightarrow> World \<Rightarrow> js_throw + World" where
  "stopDevServer killOutcome w =
     (case devProcess w of
        None \<Rightarrow> Inr w
      | Some p \<Rightarrow>
          (let w1 = w\<lparr>devTerminationCause := Some user\<rparr>;
               w2 = killProcess p (devTerminationCause w1) killOutcome w1;
               w3 = (case killOutcome of
                       None \<Rightarrow> w2
                     | Some e \<Rightarrow> consoleError ''Failed to stop dev server'' w2);
               w4 = w3\<lparr>devProcess := None\<rparr>;
               w5 = updateState
                      (\<lambda>s. s\<lparr>status := idle,
                              lastMessage := Some ''Development server stopped.'',
                              previewPort := None,
                              previewUrl := None\<rparr>) w4
           in Inr (pushLog ''Development server stopped by user.'' lvl_info w5)))"

text \<open>
  The module as loaded, and the workspace state of \<open>resetAppStore\<close> with an empty console.
\<close>

definition initialWorld :: World where
  "initialWorld =
     \<lparr>modulePromise = None, webcontainerInstance = None, installProcess = None,
      devProcess = None, listenersBound = False, installTerminationCause = None,
      devTerminationCause = None,
      appStore = \<lparr>webContainer =
                    \<lparr>status = idle, installProgress = 0,
                     lastMessage = Some ''Awaiting workspace launch.'', installPhase = None,
                     packageManager = None, wcFramework = Some unknown,
                     devCommandLabel = None, previewPort = None, previewUrl = None,
                     error = None, logs = []\<rparr>,
                  consoleLines = [], fileTree = None\<rparr>,
      browserConsole = [], hostCalls = [], liveProcesses = [], listeners = [], nextId = 0\<rparr>"








section \<open>Example inputs\<close>

definition exampleRepository :: RepositorySummary where
  "exampleRepository =
     \<lparr>owner = ''octo'', name = ''app'', defaultBranch = ''main'', selectedBranch = None,
      workspaceTemplateId = None\<rparr>"

definition manifestTree :: FileSystemTree where
  "manifestTree = [(''package.json'', FsFile ''<manifest>'')]"

definition nextManifest :: PackageJson where
  "nextManifest =
     \<lparr>scripts = Some [(''dev'', ''next dev'')], dependencies = Some [(''next'', ''14.2.4'')],
      devDependencies = None\<rparr>"

definition viteManifest :: PackageJson where
  "viteManifest =
     \<lparr>scripts = Some [(''dev'', ''vite'')], dependencies = None,
      devDependencies = Some [(''vite'', ''5.0.0'')]\<rparr>"

definition bareManifest :: PackageJson where
  "bareManifest =
     \<lparr>scripts = None, dependencies = Some [(''express'', ''4.18.0'')],
      devDependencies = None\<rparr>"

text \<open>
  A browser in which every call succeeds: the repository synchronizes to a tree with a
  manifest and npm, and the manifest parses to the given package descriptor.
\<close>

definition browserEnv :: "PackageJson \<Rightarrow> LaunchEnv" where
  "browserEnv pkg =
     \<lparr>hasWindow = True, windowPrompt = None, hasServiceWorker = True,
      importOutcome = None, bootOutcome = None, syncProgress = [],
      syncOutcome = Inr \<lparr>sync_files = manifestTree, sync_packageManager = npm,
                         sync_hasPackageJson = True\<rparr>,
      mountOutcome = None, installSpawnOutcome = None, devSpawnOutcome = None,
      killInstallOutcome = None, killDevOutcome = None, teardownOutcome = None,
      jsonParse = (\<lambda>contents. if contents = ''<manifest>'' then Some pkg else None),
      starterFiles = (\<lambda>t. manifestTree)\<rparr>"

text \<open>The launch contexts of the example launches, and the worlds of a superseded launch.\<close>

definition nextContext :: LaunchContext where
  "nextContext =
     \<lparr>ctx_instance = 0, ctx_process = 1,
      ctx_devCommand = \<lparr>framework = fw_next, scriptName = ''dev'', command = ''npm'',
                         args = [''run'', ''dev''], display = ''npm run dev'', port = 3000\<rparr>,
      ctx_usedFallback = False, ctx_repository = exampleRepository\<rparr>"

definition viteContext :: LaunchContext where
  "viteContext =
     \<lparr>ctx_instance = 0, ctx_process = 1,
      ctx_devCommand = \<lparr>framework = fw_vite, scriptName = ''dev'', command = ''npm'',
                         args = [''run'', ''dev''], display = ''npm run dev'', port = 5173\<rparr>,
      ctx_usedFallback = False, ctx_repository = exampleRepository\<rparr>"

text \<open>The first launch has reached the wait for its install process.\<close>

definition firstLaunchWorld :: World where
  "firstLaunchWorld =
     snd (launchWorkspace (browserEnv nextManifest) exampleRepository initialWorld)"

text \<open>
  A second launch has torn the first one down, and the first install process, killed,
  exits with code 137 before the second launch goes on.
\<close>

definition supersededEarly :: World where
  "supersededEarly =
     snd (launchResume (browserEnv nextManifest) nextContext 137
            (prepareFreshInstance (browserEnv nextManifest) firstLaunchWorld))"

text \<open>The same exit, seen after the second launch has started its own install process.\<close>

definition supersededLate :: World where
  "supersededLate =
     snd (launchResume (browserEnv nextManifest) nextContext 137
            (snd (launchWorkspace (browserEnv nextManifest) exampleRepository
                    firstLaunchWorld)))"

section \<open>The run-command inferencer on a manifest that declares next\<close>

lemma hasKey_spread_left:
  "k \<in> fst ` set a \<Longrightarrow> hasKey (spread a b) k"
proof -
  assume "k \<in> fst ` set a"
  then have "map_of a k \<noteq> None"
    by (simp add: map_of_eq_None_iff)
  then show ?thesis
    by (cases "map_of b k") (simp_all add: hasKey_def spread_def map_add_def)
qed

text \<open>
  C7. For every manifest whose \<open>dependencies\<close> object has the key \<open>next\<close>, whatever the
  scripts, the devDependencies, the package manager and the prompt, \<open>inferDevCommand\<close>
  returns a command spec with framework next, script \<open>dev\<close>, port 3000, and the display
  text \<open>npm run dev\<close> under npm, \<open>yarn dev\<close> under yarn, \<open>pnpm dev\<close> under pnpm.
\<close>

theorem inferDevCommand_next_dependency:
  assumes "dependencies pkg = Some deps" and "''next'' \<in> fst ` set deps"
  shows "\<exists>spec. inferDevCommand (Some pkg) pm promptFn = Some spec
           \<and> framework spec = fw_next \<and> scriptName spec = ''dev'' \<and> port spec = 3000
           \<and> display spec = (case pm of npm \<Rightarrow> ''npm run dev''
                                        | yarn \<Rightarrow> ''yarn dev''
                                        | pnpm \<Rightarrow> ''pnpm dev'')"
proof -
  have "hasKey (spread (orEmpty (dependencies pkg)) (orEmpty (devDependencies pkg))) ''next''"
    using assms by (simp add: orEmpty_def hasKey_spread_left)
  then have "inferHeuristic (orEmpty (scripts pkg))
               (spread (orEmpty (dependencies pkg)) (orEmpty (devDependencies pkg)))
             = (fw_next, Some ''dev'', 3000)"
    by (simp add: inferHeuristic_def)
  then show ?thesis
    by (cases pm) (simp_all add: inferDevCommand_def buildCommand_def)
qed

theorem inferDevCommand_next_dependency_witness:
  "\<exists>spec. inferDevCommand
            (Some \<lparr>scripts = Some [(''build'', ''tsc'')],
                   dependencies = Some [(''react'', ''18.2.0''), (''next'', ''14.2.4'')],
                   devDependencies = Some [(''vite'', ''5.0.0'')]\<rparr>) yarn None = Some spec
         \<and> framework spec = fw_next \<and> scriptName spec = ''dev'' \<and> port spec = 3000
         \<and> display spec = ''yarn dev''"
  using inferDevCommand_next_dependency
    [of "\<lparr>scripts = Some [(''build'', ''tsc'')],
           dependencies = Some [(''react'', ''18.2.0''), (''next'', ''14.2.4'')],
           devDependencies = Some [(''vite'', ''5.0.0'')]\<rparr>"
        "[(''react'', ''18.2.0''), (''next'', ''14.2.4'')]" yarn None]
  by simp

section \<open>Strings: the code against the words\<close>

lemma ecmaWhiteSpace_by_length:
  "ecmaWhiteSpace = map (\<lambda>a. [a]) whiteSpace1 @ map (\<lambda>(a, b). [a, b]) whiteSpace2
                      @ map (\<lambda>(a, b, c). [a, b, c]) whiteSpace3"
  by (simp add: ecmaWhiteSpace_def whiteSpace1_def whiteSpace2_def whiteSpace3_def)

lemma code1: "a \<in> set whiteSpace1 \<Longrightarrow> [a] \<in> set ecmaWhiteSpace"
  by (simp add: ecmaWhiteSpace_by_length)
lemma code2: "(a, b) \<in> set whiteSpace2 \<Longrightarrow> [a, b] \<in> set ecmaWhiteSpace"
  by (force simp: ecmaWhiteSpace_by_length)
lemma code3: "(a, b, c) \<in> set whiteSpace3 \<Longrightarrow> [a, b, c] \<in> set ecmaWhiteSpace"
  by (force simp: ecmaWhiteSpace_by_length)

lemma dropTrailingRev_tail:
  "\<exists>codes. set codes \<subseteq> set ecmaWhiteSpace \<and> rev r = rev (dropTrailingRev r) @ concat codes"
proof (induction r rule: dropTrailingRev.induct)
  case (1 a b c rest)
  show ?case
  proof (cases "a \<in> set whiteSpace1")
    case True
    with 1(1) obtain codes where "set codes \<subseteq> set ecmaWhiteSpace"
      "rev (b # c # rest) = rev (dropTrailingRev (b # c # rest)) @ concat codes" by blast
    with True code1 [OF True] show ?thesis
      by (intro exI [of _ "codes @ [[a]]"]) simp
  next
    case False
    note n1 = this
    show ?thesis
    proof (cases "(b, a) \<in> set whiteSpace2")
      case True
      with n1 1(2) obtain codes where "set codes \<subseteq> set ecmaWhiteSpace"
        "rev (c # rest) = rev (dropTrailingRev (c # rest)) @ concat codes" by blast
      with n1 True code2 [OF True] show ?thesis
        by (intro exI [of _ "codes @ [[b, a]]"]) simp
    next
      case False
      note n2 = this
      show ?thesis
      proof (cases "(c, b, a) \<in> set whiteSpace3")
        case True
        with n1 n2 1(3) obtain codes where "set codes \<subseteq> set ecmaWhiteSpace"
          "rev rest = rev (dropTrailingRev rest) @ concat codes" by blast
        with n1 n2 True code3 [OF True] show ?thesis
          by (intro exI [of _ "codes @ [[c, b, a]]"]) simp
      next
        case False
        with n1 n2 show ?thesis
          by (intro exI [of _ "[]"]) simp
      qed
    qed
  qed
next
  case (2 a b)
  show ?case
  proof (cases "a \<in> set whiteSpace1")
    case True
    with 2 obtain codes where "set codes \<subseteq> set ecmaWhiteSpace"
      "rev [b] = rev (dropTrailingRev [b]) @ concat codes" by blast
    with True code1 [OF True] show ?thesis
      by (intro exI [of _ "codes @ [[a]]"]) simp
  next
    case False
    note n1 = this
    show ?thesis
    proof (cases "(b, a) \<in> set whiteSpace2")
      case True
      with n1 code2 [OF True] show ?thesis
        by (intro exI [of _ "[[b, a]]"]) simp
    next
      case False
      with n1 show ?thesis
        by (intro exI [of _ "[]"]) simp
    qed
  qed
next
  case (3 a)
  show ?case
  proof (cases "a \<in> set whiteSpace1")
    case True
    with code1 [OF True] show ?thesis
      by (intro exI [of _ "[[a]]"]) simp
  next
    case False
    then show ?thesis
      by (intro exI [of _ "[]"]) simp
  qed
next
  case 4
  show ?case by (intro exI [of _ "[]"]) simp
qed

text \<open>The result does not start (reversed: end) with a white space code.\<close>

lemma dropTrailingRev_stops:
  "(case dropTrailingRev r of
      [] \<Rightarrow> True
    | a # q \<Rightarrow> a \<notin> set whiteSpace1
        \<and> (case q of [] \<Rightarrow> True
            | b # q' \<Rightarrow> (b, a) \<notin> set whiteSpace2
                \<and> (case q' of [] \<Rightarrow> True | c # q'' \<Rightarrow> (c, b, a) \<notin> set whiteSpace3)))"
  by (induction r rule: dropTrailingRev.induct) (simp_all)


lemma trimEnd_tail:
  "\<exists>codes. set codes \<subseteq> set ecmaWhiteSpace \<and> s = trimEnd s @ concat codes"
  using dropTrailingRev_tail [of "rev s"] by (simp add: trimEnd_def)

lemma trimEnd_no_white_suffix:
  assumes "code \<in> set ecmaWhiteSpace"
  shows "\<not> suffix code (trimEnd s)"
proof
  assume "suffix code (trimEnd s)"
  then have p: "prefix (rev code) (dropTrailingRev (rev s))"
    by (simp add: trimEnd_def suffix_to_prefix)
  from assms consider
      (one) a where "code = [a]" "a \<in> set whiteSpace1"
    | (two) a b where "code = [a, b]" "(a, b) \<in> set whiteSpace2"
    | (three) a b c where "code = [a, b, c]" "(a, b, c) \<in> set whiteSpace3"
    by (auto simp: ecmaWhiteSpace_by_length)
  then show False
  proof cases
    case one
    with p obtain q where "dropTrailingRev (rev s) = a # q"
      by (auto simp: prefix_def)
    with dropTrailingRev_stops [of "rev s"] one show False by simp
  next
    case two
    with p obtain q where "dropTrailingRev (rev s) = b # a # q"
      by (auto simp: prefix_def)
    with dropTrailingRev_stops [of "rev s"] two show False by simp
  next
    case three
    with p obtain q where "dropTrailingRev (rev s) = c # b # a # q"
      by (auto simp: prefix_def)
    with dropTrailingRev_stops [of "rev s"] three show False by simp
  qed
qed

lemma str_includes_iff: "str_includes s t \<longleftrightarrow> (\<exists>a b. s = a @ t @ b)"
proof -
  have "str_includes s t = sublist t s"
    by (induction s) (auto simp: sublist_Cons_right)
  then show ?thesis by (simp add: sublist_def)
qed

lemma toLowerCase_char_sameLetter:
  assumes "d \<notin> set ''ABCDEFGHIJKLMNOPQRSTUVWXYZ''"
  shows "toLowerCase_char c = d \<longleftrightarrow> sameLetter c d"
proof -
  define tbl where "tbl = zip ''ABCDEFGHIJKLMNOPQRSTUVWXYZ'' ''abcdefghijklmnopqrstuvwxyz''"
  have dist: "distinct (map fst tbl)"
    by (simp add: tbl_def)
  have left: "x \<in> set ''ABCDEFGHIJKLMNOPQRSTUVWXYZ''" if "(x, y) \<in> set tbl" for x y
    using that unfolding tbl_def by (rule set_zip_leftD)
  have low: "toLowerCase_char c = (case map_of tbl c of Some l \<Rightarrow> l | None \<Rightarrow> c)"
    by (simp only: toLowerCase_char_def tbl_def)
  have same: "sameLetter c d = (c = d \<or> (c, d) \<in> set tbl)"
    by (simp only: sameLetter_def tbl_def)
  show ?thesis
  proof (cases "map_of tbl c")
    case None
    then have "c \<notin> fst ` set tbl"
      by (metis map_of_eq_None_iff)
    then have "(c, d) \<notin> set tbl"
      by (metis fst_conv image_eqI)
    with None show ?thesis
      unfolding low same by simp
  next
    case (Some l)
    then have in_tbl: "(c, l) \<in> set tbl"
      by (rule map_of_SomeD)
    with left assms have ne: "c \<noteq> d" by blast
    have "(c, d) \<in> set tbl \<longleftrightarrow> d = l"
      using Some map_of_is_SomeI [OF dist, of c d] in_tbl by auto
    with Some ne show ?thesis
      unfolding low same by auto
  qed
qed

lemma map_toLowerCase_sameLetter:
  assumes "set snippet \<inter> set ''ABCDEFGHIJKLMNOPQRSTUVWXYZ'' = {}"
  shows "map toLowerCase_char u = snippet \<longleftrightarrow> list_all2 sameLetter u snippet"
  using assms
proof (induction u arbitrary: snippet)
  case Nil
  then show ?case by auto
next
  case (Cons c u)
  show ?case
  proof (cases snippet)
    case Nil
    then show ?thesis by simp
  next
    case (Cons d rest)
    with Cons.prems have d: "d \<notin> set ''ABCDEFGHIJKLMNOPQRSTUVWXYZ''"
      and r: "set rest \<inter> set ''ABCDEFGHIJKLMNOPQRSTUVWXYZ'' = {}"
      by auto
    from Cons.IH [OF r] toLowerCase_char_sameLetter [OF d, of c] Cons show ?thesis
      by simp
  qed
qed

lemma includes_lower_iff:
  assumes "set snippet \<inter> set ''ABCDEFGHIJKLMNOPQRSTUVWXYZ'' = {}"
  shows "str_includes (toLowerCase t) snippet \<longleftrightarrow> containsIgnoringCase t snippet"
proof
  assume "str_includes (toLowerCase t) snippet"
  then obtain a b where "map toLowerCase_char t = a @ snippet @ b"
    by (auto simp: str_includes_iff toLowerCase_def)
  then obtain before rest where t1: "t = before @ rest" "map toLowerCase_char rest = snippet @ b"
    by (metis map_eq_append_conv)
  then obtain found after where t2: "rest = found @ after" "map toLowerCase_char found = snippet"
    by (metis map_eq_append_conv)
  with t1 map_toLowerCase_sameLetter [OF assms, of found] show "containsIgnoringCase t snippet"
    unfolding containsIgnoringCase_def by blast
next
  assume "containsIgnoringCase t snippet"
  then obtain before found after where "t = before @ found @ after"
    "list_all2 sameLetter found snippet"
    unfolding containsIgnoringCase_def by blast
  with map_toLowerCase_sameLetter [OF assms, of found]
  have "toLowerCase t = toLowerCase before @ snippet @ toLowerCase after"
    by (simp add: toLowerCase_def)
  then show "str_includes (toLowerCase t) snippet"
    unfolding str_includes_iff by blast
qed

lemma splitLines_spec:
  "\<exists>pairs lastPiece.
      splitLines s = map fst pairs @ [lastPiece]
      \<and> s = concat (map (\<lambda>(piece, sep). piece @ sep) pairs) @ lastPiece
      \<and> lineBreaks pairs
      \<and> CHR 0x0A \<notin> set lastPiece"
proof (induction s rule: splitLines.induct)
  case 1
  show ?case
    by (intro exI [of _ "[]"] exI [of _ "[]"]) (simp add: lineBreaks_def)
next
  case (2 c)
  show ?case
  proof (cases "c = CHR 0x0A")
    case True
    then show ?thesis
      by (intro exI [of _ "[([], [CHR 0x0A])]"] exI [of _ "[]"]) (simp add: lineBreaks_def)
  next
    case False
    then show ?thesis
      by (intro exI [of _ "[]"] exI [of _ "[c]"]) (simp add: lineBreaks_def)
  qed
next
  case (3 c d cs)
  show ?case
  proof (cases "c = CHR 0x0A")
    case True
    with 3(1) obtain pairs lastPiece where ih:
      "splitLines (d # cs) = map fst pairs @ [lastPiece]"
      "concat (map (\<lambda>(piece, sep). piece @ sep) pairs) @ lastPiece = d # cs"
      "lineBreaks pairs" "CHR 0x0A \<notin> set lastPiece"
      by metis
    have sp: "splitLines (c # d # cs) = [] # splitLines (d # cs)"
      using True by simp
    from True ih(3) have lb: "lineBreaks (([], [CHR 0x0A]) # pairs)"
      by (simp add: lineBreaks_def)
    from sp ih(1) ih(2) lb ih(4) True show ?thesis
      by (intro exI [of _ "([], [CHR 0x0A]) # pairs"] exI [of _ lastPiece]) simp
  next
    case False
    note nlf = this
    show ?thesis
    proof (cases "c = CHR 0x0D \<and> d = CHR 0x0A")
      case True
      with nlf 3(2) obtain pairs lastPiece where ih:
        "splitLines cs = map fst pairs @ [lastPiece]"
        "concat (map (\<lambda>(piece, sep). piece @ sep) pairs) @ lastPiece = cs"
        "lineBreaks pairs" "CHR 0x0A \<notin> set lastPiece"
        by metis
      have sp: "splitLines (c # d # cs) = [] # splitLines cs"
        using nlf True by simp
      from ih(3) have lb: "lineBreaks (([], [CHR 0x0D, CHR 0x0A]) # pairs)"
        by (simp add: lineBreaks_def)
      from sp ih(1) ih(2) lb ih(4) True show ?thesis
        by (intro exI [of _ "([], [CHR 0x0D, CHR 0x0A]) # pairs"] exI [of _ lastPiece]) simp
    next
      case False
      with nlf 3(3) obtain pairs lastPiece where ih:
        "splitLines (d # cs) = map fst pairs @ [lastPiece]"
        "concat (map (\<lambda>(piece, sep). piece @ sep) pairs) @ lastPiece = d # cs"
        "lineBreaks pairs" "CHR 0x0A \<notin> set lastPiece"
        by metis
      have sp: "splitLines (c # d # cs) = consHead c (splitLines (d # cs))"
        using nlf False by (simp only: splitLines.simps if_False)
      show ?thesis
      proof (cases pairs)
        case Nil
        with ih nlf have
          "splitLines (c # d # cs) = map fst [] @ [c # lastPiece]"
          "c # d # cs = concat (map (\<lambda>(piece, sep). piece @ sep) []) @ (c # lastPiece)"
          "lineBreaks []" "CHR 0x0A \<notin> set (c # lastPiece)"
          unfolding sp by (simp_all add: lineBreaks_def)
        then show ?thesis by blast
      next
        case (Cons first rest)
        obtain piece sep where f: "first = (piece, sep)" by (cases first)
        from ih(3) Cons f have fst_ok: "CHR 0x0A \<notin> set piece"
          "sep = [CHR 0x0A] \<and> (piece = [] \<or> last piece \<noteq> CHR 0x0D)
             \<or> sep = [CHR 0x0D, CHR 0x0A]"
          and rest_ok: "lineBreaks rest"
          by (simp_all add: lineBreaks_def)
        have cr: "sep = [CHR 0x0A] \<Longrightarrow> last (c # piece) \<noteq> CHR 0x0D"
        proof (cases piece)
          case Nil
          assume s1: "sep = [CHR 0x0A]"
          from ih(2) Cons f Nil s1 have "d = CHR 0x0A" by simp
          with False have "c \<noteq> CHR 0x0D" by simp
          with Nil show ?thesis by simp
        next
          case (Cons p ps)
          assume "sep = [CHR 0x0A]"
          with fst_ok(2) Cons show ?thesis by auto
        qed
        have lb: "lineBreaks ((c # piece, sep) # rest)"
          using fst_ok rest_ok nlf cr by (auto simp: lineBreaks_def)
        from ih(1) ih(2) Cons f have
          "splitLines (c # d # cs) = map fst ((c # piece, sep) # rest) @ [lastPiece]"
          "c # d # cs = concat (map (\<lambda>(piece, sep). piece @ sep) ((c # piece, sep) # rest))
                          @ lastPiece"
          unfolding sp by simp_all
        with lb ih(4) show ?thesis by blast
      qed
    qed
  qed
qed

lemma matchesIndicators_suggests:
  assumes "set (concat indicators) \<inter> set ''ABCDEFGHIJKLMNOPQRSTUVWXYZ'' = {}"
    and "[] \<notin> set indicators"
  shows "matchesIndicators txt indicators = suggests txt indicators"
proof (cases "txt")
  case None
  then show ?thesis
    by (simp add: matchesIndicators_def suggests_def)
next
  case (Some t)
  have each: "str_includes (toLowerCase t) indicator = containsIgnoringCase t indicator"
    if "indicator \<in> set indicators" for indicator
  proof -
    from that assms(1) have "set indicator \<inter> set ''ABCDEFGHIJKLMNOPQRSTUVWXYZ'' = {}"
      by auto
    then show ?thesis by (rule includes_lower_iff)
  qed
  show ?thesis
  proof (cases "t = []")
    case True
    have "\<not> containsIgnoringCase [] indicator" if "indicator \<in> set indicators" for indicator
    proof
      assume "containsIgnoringCase [] indicator"
      then have "indicator = []"
        by (auto simp: containsIgnoringCase_def)
      with that assms(2) show False by simp
    qed
    with Some True show ?thesis
      by (auto simp: matchesIndicators_def suggests_def)
  next
    case False
    with Some each show ?thesis
      by (auto simp: matchesIndicators_def suggests_def list_ex_iff Let_def)
  qed
qed

section \<open>The template detector: priority and confidence\<close>

lemmas detector_defs =
  detectWorkspaceTemplate_def detectNextJs_def detectVite_def detectCreateReactApp_def
  fieldOrEmpty_def spread_def truthyProp_def orFalse_def matchesIndicators_def
  toLowerCase_def toLowerCase_char_def

lemma detectNextJs_confidence:
  "map_option confidence
     (detectNextJs (packageJson m) (orFalse (hasNextConfig m)) (repoName m) (repoDescription m))
     = (if truthyProp (mergedDeps m) ''next'' then Some high
        else if orFalse (hasNextConfig m) then Some medium
        else if nextNamed m then Some low
        else None)"
  by (simp add: detectNextJs_def mergedDeps_def nextNamed_def Let_def)

lemma detectNextJs_template:
  "map_option templateId
     (detectNextJs (packageJson m) (orFalse (hasNextConfig m)) (repoName m) (repoDescription m))
     = (if nextSignal m then Some (Some nextjs_starter) else None)"
  by (simp add: detectNextJs_def mergedDeps_def nextNamed_def nextSignal_def Let_def)

lemma detectVite_confidence:
  "map_option confidence
     (detectVite (packageJson m) (orFalse (hasViteConfig m)) (repoName m) (repoDescription m))
     = (if truthyProp (mergedDeps m) ''vite'' then Some high
        else if orFalse (hasViteConfig m) then Some medium
        else if viteNamed m then Some low
        else None)"
  by (simp add: detectVite_def mergedDeps_def viteNamed_def Let_def)

lemma detectVite_template:
  "map_option templateId
     (detectVite (packageJson m) (orFalse (hasViteConfig m)) (repoName m) (repoDescription m))
     = (if viteSignal m then Some (Some vite_react_starter) else None)"
  by (simp add: detectVite_def mergedDeps_def viteNamed_def viteSignal_def Let_def)

lemma detectCreateReactApp_confidence:
  "map_option confidence
     (detectCreateReactApp (packageJson m) (orFalse (hasYarnLock m)) (repoName m)
        (repoDescription m))
     = (if truthyProp (plainDeps m) ''react-scripts'' then Some high
        else if craScriptPattern m then Some medium
        else if orFalse (hasYarnLock m) \<and> reactPair m then Some low
        else if craNamed m then Some low
        else None)"
  by (auto simp: detectCreateReactApp_def plainDeps_def craNamed_def craScriptPattern_def
      reactPair_def Let_def)

lemma detectCreateReactApp_template:
  "map_option templateId
     (detectCreateReactApp (packageJson m) (orFalse (hasYarnLock m)) (repoName m)
        (repoDescription m))
     = (if craSignal m then Some (Some cra_starter) else None)"
  by (auto simp: detectCreateReactApp_def plainDeps_def craNamed_def craScriptPattern_def
      reactPair_def craSignal_def Let_def)

text \<open>The detector as a chain over the three framework detectors.\<close>

lemma detectWorkspaceTemplate_chain:
  "detectWorkspaceTemplate m =
     (case detectNextJs (packageJson m) (orFalse (hasNextConfig m)) (repoName m)
             (repoDescription m) of
        Some r \<Rightarrow> r
      | None \<Rightarrow>
     (case detectVite (packageJson m) (orFalse (hasViteConfig m)) (repoName m)
             (repoDescription m) of
        Some r \<Rightarrow> r
      | None \<Rightarrow>
     (case detectCreateReactApp (packageJson m) (orFalse (hasYarnLock m)) (repoName m)
             (repoDescription m) of
        Some r \<Rightarrow> r
      | None \<Rightarrow>
          \<lparr>templateId = None, confidence = low,
           reason = ''Unable to determine a suitable template. The repository may use a custom setup or unsupported framework.''\<rparr>)))"
  by (simp add: detectWorkspaceTemplate_def)

lemma detectWorkspaceTemplate_templateId:
  "templateId (detectWorkspaceTemplate m)
     = (if nextSignal m then Some nextjs_starter
        else if viteSignal m then Some vite_react_starter
        else if craSignal m then Some cra_starter
        else None)"
  using detectNextJs_template [of m] detectVite_template [of m]
    detectCreateReactApp_template [of m]
  unfolding detectWorkspaceTemplate_chain
  by (cases "detectNextJs (packageJson m) (orFalse (hasNextConfig m)) (repoName m)
               (repoDescription m)";
      cases "detectVite (packageJson m) (orFalse (hasViteConfig m)) (repoName m)
               (repoDescription m)";
      cases "detectCreateReactApp (packageJson m) (orFalse (hasYarnLock m)) (repoName m)
               (repoDescription m)")
     (simp_all split: if_splits)

lemma detectWorkspaceTemplate_next_high:
  assumes "truthyProp (mergedDeps m) ''next''"
  shows "templateId (detectWorkspaceTemplate m) = Some nextjs_starter
         \<and> confidence (detectWorkspaceTemplate m) = high"
  using assms detectNextJs_template [of m] detectNextJs_confidence [of m]
  unfolding detectWorkspaceTemplate_chain
  by (cases "detectNextJs (packageJson m) (orFalse (hasNextConfig m)) (repoName m)
               (repoDescription m)")
     (simp_all add: nextSignal_def split: if_splits)

text \<open>
  C5. A manifest whose \<open>dependencies\<close> object has both keys \<open>next\<close> and \<open>vite\<close>, with
  the empty string as the value of \<open>next\<close>, is answered with vite-react-starter at high
  confidence: the detector tests the value of the entry, which is falsy, where its comment
  speaks of the dependency being present.
\<close>

theorem detectWorkspaceTemplate_empty_next_version:
  "detectWorkspaceTemplate
     \<lparr>packageJson = Some \<lparr>scripts = None,
                           dependencies = Some [(''next'', []), (''vite'', ''5.0.0'')],
                           devDependencies = None\<rparr>,
      hasPackageLock = None, hasYarnLock = None, hasPnpmLock = None,
      hasNextConfig = None, hasViteConfig = None, repoName = None, repoDescription = None\<rparr>
   = \<lparr>templateId = Some vite_react_starter, confidence = high,
      reason = ''Vite dependency found in package.json''\<rparr>"
  by (simp add: detector_defs)

text \<open>
  The priority of the frameworks: the detector evaluates next, vite, create-react-app in
  this order, and the first framework with any signal decides the template, whatever the
  signals of the later ones. A manifest whose merged dependencies (devDependencies over
  dependencies) give \<open>next\<close> a non-empty value yields nextjs-starter at high confidence,
  also when vite is declared.
\<close>

theorem detectWorkspaceTemplate_priority:
  "templateId (detectWorkspaceTemplate m)
     = (if nextSignal m then Some nextjs_starter
        else if viteSignal m then Some vite_react_starter
        else if craSignal m then Some cra_starter
        else None)
   \<and> (truthyProp (mergedDeps m) ''next'' \<longrightarrow>
        templateId (detectWorkspaceTemplate m) = Some nextjs_starter
        \<and> confidence (detectWorkspaceTemplate m) = high)"
  using detectWorkspaceTemplate_templateId [of m] detectWorkspaceTemplate_next_high [of m]
  by blast

theorem detectWorkspaceTemplate_priority_witness:
  "truthyProp (mergedDeps
      \<lparr>packageJson = Some \<lparr>scripts = None,
                            dependencies = Some [(''next'', ''14.0.0''), (''vite'', ''5.0.0'')],
                            devDependencies = None\<rparr>,
       hasPackageLock = None, hasYarnLock = None, hasPnpmLock = None,
       hasNextConfig = None, hasViteConfig = None, repoName = None,
       repoDescription = None\<rparr>) ''next''
   \<and> truthyProp (mergedDeps
      \<lparr>packageJson = Some \<lparr>scripts = None,
                            dependencies = Some [(''next'', ''14.0.0''), (''vite'', ''5.0.0'')],
                            devDependencies = None\<rparr>,
       hasPackageLock = None, hasYarnLock = None, hasPnpmLock = None,
       hasNextConfig = None, hasViteConfig = None, repoName = None,
       repoDescription = None\<rparr>) ''vite''
   \<and> templateId (detectWorkspaceTemplate
      \<lparr>packageJson = Some \<lparr>scripts = None,
                            dependencies = Some [(''next'', ''14.0.0''), (''vite'', ''5.0.0'')],
                            devDependencies = None\<rparr>,
       hasPackageLock = None, hasYarnLock = None, hasPnpmLock = None,
       hasNextConfig = None, hasViteConfig = None, repoName = None,
       repoDescription = None\<rparr>) = Some nextjs_starter
   \<and> confidence (detectWorkspaceTemplate
      \<lparr>packageJson = Some \<lparr>scripts = None,
                            dependencies = Some [(''next'', ''14.0.0''), (''vite'', ''5.0.0'')],
                            devDependencies = None\<rparr>,
       hasPackageLock = None, hasYarnLock = None, hasPnpmLock = None,
       hasNextConfig = None, hasViteConfig = None, repoName = None,
       repoDescription = None\<rparr>) = high"
proof -
  let ?m = "\<lparr>packageJson = Some \<lparr>scripts = None,
                            dependencies = Some [(''next'', ''14.0.0''), (''vite'', ''5.0.0'')],
                            devDependencies = None\<rparr>,
       hasPackageLock = None, hasYarnLock = None, hasPnpmLock = None,
       hasNextConfig = None, hasViteConfig = None, repoName = None,
       repoDescription = None\<rparr>"
  have n: "truthyProp (mergedDeps ?m) ''next''"
    by (simp add: mergedDeps_def detector_defs)
  have v: "truthyProp (mergedDeps ?m) ''vite''"
    by (simp add: mergedDeps_def detector_defs)
  from n v detectWorkspaceTemplate_priority [of ?m] show ?thesis
    by blast
qed

text \<open>
  C6, as the specification states it, fails on create-react-app: the four scripts start,
  build, test and eject next to react and react-dom give cra-starter at medium confidence,
  with no configuration file and no yarn lockfile in the bundle. So create-react-app has a
  second additional signal, and that one is not of low confidence.
\<close>

theorem detectCreateReactApp_script_pattern_counterexample:
  "detectWorkspaceTemplate
     \<lparr>packageJson = Some
        \<lparr>scripts = Some [(''start'', ''react-scripts start''), (''build'', ''react-scripts build''),
                          (''test'', ''react-scripts test''), (''eject'', ''react-scripts eject'')],
         dependencies = Some [(''react'', ''18.0.0''), (''react-dom'', ''18.0.0'')],
         devDependencies = None\<rparr>,
      hasPackageLock = None, hasYarnLock = None, hasPnpmLock = None,
      hasNextConfig = None, hasViteConfig = None, repoName = None, repoDescription = None\<rparr>
   = \<lparr>templateId = Some cra_starter, confidence = medium,
      reason = ''Create React App script pattern detected''\<rparr>"
  by (simp add: detector_defs)

lemma truthyProp_declares:
  assumes "nonEmptyValues obj"
  shows "truthyProp (map_of obj) k = declares obj k"
proof (cases "map_of obj k")
  case None
  moreover from None have "k \<notin> fst ` set obj"
    by (simp add: map_of_eq_None_iff)
  ultimately show ?thesis
    by (simp add: truthyProp_def declares_def)
next
  case (Some v)
  then have "(k, v) \<in> set obj" by (rule map_of_SomeD)
  with assms have "v \<noteq> []" "k \<in> fst ` set obj"
    by (force simp: nonEmptyValues_def list_all_iff)+
  with Some show ?thesis
    by (simp add: truthyProp_def declares_def)
qed

lemma truthyProp_spread_declares:
  assumes "nonEmptyValues a" and "nonEmptyValues b"
  shows "truthyProp (spread a b) k = (declares a k \<or> declares b k)"
proof (cases "map_of b k")
  case None
  then have "truthyProp (spread a b) k = truthyProp (map_of a) k"
    by (simp add: truthyProp_def spread_def map_add_def)
  moreover from None have "\<not> declares b k"
    by (simp add: declares_def map_of_eq_None_iff)
  ultimately show ?thesis
    using truthyProp_declares [OF assms(1)] by simp
next
  case (Some v)
  then have "truthyProp (spread a b) k = truthyProp (map_of b) k"
    by (simp add: truthyProp_def spread_def map_add_def)
  moreover from Some have "declares b k"
    using truthyProp_declares [OF assms(2), of k] assms(2)
    by (metis map_of_eq_None_iff declares_def option.distinct(1))
  ultimately show ?thesis
    using truthyProp_declares [OF assms(2)] by simp
qed

lemma named_suggests:
  "nextNamed m = (suggests (repoName m) [''next'', ''nextjs'', ''next-app'']
                  \<or> suggests (repoDescription m) [''next.js'', ''next app'', ''nextjs''])"
  "viteNamed m = (suggests (repoName m) [''vite'', ''vite-app'', ''vite-react'']
                  \<or> suggests (repoDescription m) [''vite'', ''vite app'', ''vite react''])"
  "craNamed m = (suggests (repoName m) [''create-react-app'', ''cra-app'', ''react-app'']
                 \<or> suggests (repoDescription m) [''create react app'', ''cra'', ''react app''])"
  unfolding nextNamed_def viteNamed_def craNamed_def
  by (subst matchesIndicators_suggests, simp, simp,
      subst matchesIndicators_suggests, simp, simp, rule refl)+

text \<open>
  C6, amended. Take a bundle whose dependencies, devDependencies and scripts have
  non-empty values. For Next.js and Vite the confidence is high when the framework is
  declared in dependencies or devDependencies, else medium when the framework's
  configuration file is present, else low when the repository name or description is
  there and contains one of the framework's indicators, ignoring case, else there is no
  match. create-react-app has no configuration-file signal: it is high when
  \<open>react-scripts\<close> is declared in dependencies, else medium when the scripts start, build,
  test and eject are all defined and react and react-dom are dependencies, else low when a
  yarn lockfile comes with react and react-dom, else low on a name or description
  indicator, else there is no match.
\<close>

theorem detector_confidence_table:
  assumes "wellVersioned m"
  shows "map_option confidence
     (detectNextJs (packageJson m) (orFalse (hasNextConfig m)) (repoName m) (repoDescription m))
     = (if declares (fieldOrEmpty (packageJson m) dependencies) ''next''
           \<or> declares (fieldOrEmpty (packageJson m) devDependencies) ''next'' then Some high
        else if hasNextConfig m = Some True then Some medium
        else if suggests (repoName m) [''next'', ''nextjs'', ''next-app'']
                \<or> suggests (repoDescription m) [''next.js'', ''next app'', ''nextjs'']
             then Some low
        else None)
   \<and> map_option confidence
     (detectVite (packageJson m) (orFalse (hasViteConfig m)) (repoName m) (repoDescription m))
     = (if declares (fieldOrEmpty (packageJson m) dependencies) ''vite''
           \<or> declares (fieldOrEmpty (packageJson m) devDependencies) ''vite'' then Some high
        else if hasViteConfig m = Some True then Some medium
        else if suggests (repoName m) [''vite'', ''vite-app'', ''vite-react'']
                \<or> suggests (repoDescription m) [''vite'', ''vite app'', ''vite react'']
             then Some low
        else None)
   \<and> map_option confidence
     (detectCreateReactApp (packageJson m) (orFalse (hasYarnLock m)) (repoName m)
        (repoDescription m))
     = (if declares (fieldOrEmpty (packageJson m) dependencies) ''react-scripts'' then Some high
        else if list_all (declares (fieldOrEmpty (packageJson m) scripts))
                  [''start'', ''build'', ''test'', ''eject'']
                \<and> declares (fieldOrEmpty (packageJson m) dependencies) ''react''
                \<and> declares (fieldOrEmpty (packageJson m) dependencies) ''react-dom''
             then Some medium
        else if hasYarnLock m = Some True
                \<and> declares (fieldOrEmpty (packageJson m) dependencies) ''react''
                \<and> declares (fieldOrEmpty (packageJson m) dependencies) ''react-dom''
             then Some low
        else if suggests (repoName m) [''create-react-app'', ''cra-app'', ''react-app'']
                \<or> suggests (repoDescription m) [''create react app'', ''cra'', ''react app'']
             then Some low
        else None)"
proof -
  from assms have d: "nonEmptyValues (fieldOrEmpty (packageJson m) dependencies)"
    and v: "nonEmptyValues (fieldOrEmpty (packageJson m) devDependencies)"
    and s: "nonEmptyValues (fieldOrEmpty (packageJson m) scripts)"
    by (simp_all add: wellVersioned_def)
  have merged: "truthyProp (mergedDeps m) k
                  = (declares (fieldOrEmpty (packageJson m) dependencies) k
                     \<or> declares (fieldOrEmpty (packageJson m) devDependencies) k)" for k
    by (simp add: mergedDeps_def truthyProp_spread_declares [OF d v])
  have plain: "truthyProp (plainDeps m) k
                 = declares (fieldOrEmpty (packageJson m) dependencies) k" for k
    by (simp add: plainDeps_def truthyProp_declares [OF d])
  have scr: "truthyProp (map_of (fieldOrEmpty (packageJson m) scripts)) k
               = declares (fieldOrEmpty (packageJson m) scripts) k" for k
    by (simp add: truthyProp_declares [OF s])
  have pat: "craScriptPattern m
      = (list_all (declares (fieldOrEmpty (packageJson m) scripts))
                  [''start'', ''build'', ''test'', ''eject'']
                \<and> declares (fieldOrEmpty (packageJson m) dependencies) ''react''
                \<and> declares (fieldOrEmpty (packageJson m) dependencies) ''react-dom'')"
    by (simp add: craScriptPattern_def reactPair_def plain scr)
  have pair: "reactPair m
      = (declares (fieldOrEmpty (packageJson m) dependencies) ''react''
         \<and> declares (fieldOrEmpty (packageJson m) dependencies) ''react-dom'')"
    by (simp add: reactPair_def plain)
  have flag: "orFalse b = (b = Some True)" for b
    by (cases b) (simp_all add: orFalse_def)
  show ?thesis
    using detectNextJs_confidence [of m] detectVite_confidence [of m]
      detectCreateReactApp_confidence [of m]
    unfolding merged plain pat pair named_suggests
    by (simp add: flag)
qed

text \<open>
  Two bundles: one with the create-react-app script pattern and a Next.js configuration
  file, one with nothing but a repository name in mixed case.
\<close>

theorem detector_confidence_table_witness:
  "wellVersioned
     \<lparr>packageJson = Some
        \<lparr>scripts = Some [(''start'', ''react-scripts start''), (''build'', ''react-scripts build''),
                          (''test'', ''react-scripts test''), (''eject'', ''react-scripts eject'')],
         dependencies = Some [(''react'', ''18.0.0''), (''react-dom'', ''18.0.0'')],
         devDependencies = None\<rparr>,
      hasPackageLock = None, hasYarnLock = None, hasPnpmLock = None,
      hasNextConfig = Some True, hasViteConfig = None, repoName = None,
      repoDescription = None\<rparr>
   \<and> map_option confidence
       (detectNextJs
          (Some \<lparr>scripts = Some [(''start'', ''react-scripts start''),
                                  (''build'', ''react-scripts build''),
                                  (''test'', ''react-scripts test''),
                                  (''eject'', ''react-scripts eject'')],
                 dependencies = Some [(''react'', ''18.0.0''), (''react-dom'', ''18.0.0'')],
                 devDependencies = None\<rparr>) True None None) = Some medium
   \<and> map_option confidence
       (detectCreateReactApp
          (Some \<lparr>scripts = Some [(''start'', ''react-scripts start''),
                                  (''build'', ''react-scripts build''),
                                  (''test'', ''react-scripts test''),
                                  (''eject'', ''react-scripts eject'')],
                 dependencies = Some [(''react'', ''18.0.0''), (''react-dom'', ''18.0.0'')],
                 devDependencies = None\<rparr>) False None None) = Some medium
   \<and> wellVersioned
     \<lparr>packageJson = None, hasPackageLock = None, hasYarnLock = None, hasPnpmLock = None,
      hasNextConfig = None, hasViteConfig = None, repoName = Some ''My-NEXTJS-App'',
      repoDescription = None\<rparr>
   \<and> map_option confidence (detectNextJs None False (Some ''My-NEXTJS-App'') None) = Some low
   \<and> suggests (Some ''My-NEXTJS-App'') [''next'', ''nextjs'', ''next-app'']"
proof -
  let ?m = "\<lparr>packageJson = Some
        \<lparr>scripts = Some [(''start'', ''react-scripts start''), (''build'', ''react-scripts build''),
                          (''test'', ''react-scripts test''), (''eject'', ''react-scripts eject'')],
         dependencies = Some [(''react'', ''18.0.0''), (''react-dom'', ''18.0.0'')],
         devDependencies = None\<rparr>,
      hasPackageLock = None, hasYarnLock = None, hasPnpmLock = None,
      hasNextConfig = Some True, hasViteConfig = None, repoName = None,
      repoDescription = None\<rparr>"
  let ?n = "\<lparr>packageJson = None, hasPackageLock = None, hasYarnLock = None,
      hasPnpmLock = None, hasNextConfig = None, hasViteConfig = None,
      repoName = Some ''My-NEXTJS-App'', repoDescription = None\<rparr>"
  have w: "wellVersioned ?m"
    by (simp add: wellVersioned_def nonEmptyValues_def fieldOrEmpty_def)
  have x: "wellVersioned ?n"
    by (simp add: wellVersioned_def nonEmptyValues_def fieldOrEmpty_def)
  have low: "map_option confidence (detectNextJs None False (Some ''My-NEXTJS-App'') None)
               = Some low"
    by (simp add: detector_defs)
  have nodesc: "\<not> suggests None [''next.js'', ''next app'', ''nextjs'']"
    by (simp add: suggests_def)
  from detector_confidence_table [OF w]
  have a: "map_option confidence
       (detectNextJs (packageJson ?m) (orFalse (hasNextConfig ?m)) (repoName ?m)
          (repoDescription ?m)) = Some medium
     \<and> map_option confidence
       (detectCreateReactApp (packageJson ?m) (orFalse (hasYarnLock ?m)) (repoName ?m)
          (repoDescription ?m)) = Some medium"
    by (simp add: fieldOrEmpty_def declares_def)
  from detector_confidence_table [OF x] low nodesc
  have b: "suggests (Some ''My-NEXTJS-App'') [''next'', ''nextjs'', ''next-app'']"
    by (simp add: fieldOrEmpty_def declares_def orFalse_def split: if_splits)
  from a b w x low show ?thesis
    by (simp add: orFalse_def)
qed

section \<open>The orchestrator\<close>

lemmas run_defs =
  launchWorkspace_def launchBody_def launchPrologue_def launchTry_def launchInstallStage_def resolveFiles_def
  runInstall_begin_def runInstall_resume_def runDevServer_def launchResume_def
  launchResumeTry_def portHintOf_def prepareFreshInstance_def killPriorInstall_def
  killPriorDev_def teardownPrior_def bootWebContainer_def loadModule_def
  bindInstanceEvents_def spawnProcess_def killProcess_def processExited_def
  teardownInstance_def reportError_def updateState_def pushLog_def consoleError_def
  setWebContainerState_def pushConsoleLine_def resetConsole_def setFileTree_def
  parsePackageJson_def readFileFromTree_def pathSegments_def
  getWorkspaceTemplateById_def WORKSPACE_TEMPLATES_def pmName_def
  inferDevCommand_def inferHeuristic_def promptForScript_def buildCommand_def
  scriptIncludes_def hasScript_def hasKey_def spread_def orEmpty_def
  toLowerCase_def toLowerCase_char_def
  initialWorld_def exampleRepository_def manifestTree_def browserEnv_def
  nextManifest_def viteManifest_def bareManifest_def

section \<open>What each primitive step leaves alone\<close>

lemma updateState_frame [simp]:
  "modulePromise (updateState patch w) = modulePromise w"
  "webcontainerInstance (updateState patch w) = webcontainerInstance w"
  "installProcess (updateState patch w) = installProcess w"
  "devProcess (updateState patch w) = devProcess w"
  "listenersBound (updateState patch w) = listenersBound w"
  "installTerminationCause (updateState patch w) = installTerminationCause w"
  "devTerminationCause (updateState patch w) = devTerminationCause w"
  "browserConsole (updateState patch w) = browserConsole w"
  "hostCalls (updateState patch w) = hostCalls w"
  "liveProcesses (updateState patch w) = liveProcesses w"
  "listeners (updateState patch w) = listeners w"
  "nextId (updateState patch w) = nextId w"
  by (simp_all add: updateState_def)

lemma pushLog_frame [simp]:
  "modulePromise (pushLog txt lvl w) = modulePromise w"
  "webcontainerInstance (pushLog txt lvl w) = webcontainerInstance w"
  "installProcess (pushLog txt lvl w) = installProcess w"
  "devProcess (pushLog txt lvl w) = devProcess w"
  "listenersBound (pushLog txt lvl w) = listenersBound w"
  "installTerminationCause (pushLog txt lvl w) = installTerminationCause w"
  "devTerminationCause (pushLog txt lvl w) = devTerminationCause w"
  "browserConsole (pushLog txt lvl w) = browserConsole w"
  "hostCalls (pushLog txt lvl w) = hostCalls w"
  "liveProcesses (pushLog txt lvl w) = liveProcesses w"
  "listeners (pushLog txt lvl w) = listeners w"
  "nextId (pushLog txt lvl w) = nextId w"
  by (simp_all add: pushLog_def)

lemma consoleError_frame [simp]:
  "modulePromise (consoleError message w) = modulePromise w"
  "webcontainerInstance (consoleError message w) = webcontainerInstance w"
  "installProcess (consoleError message w) = installProcess w"
  "devProcess (consoleError message w) = devProcess w"
  "listenersBound (consoleError message w) = listenersBound w"
  "installTerminationCause (consoleError message w) = installTerminationCause w"
  "devTerminationCause (consoleError message w) = devTerminationCause w"
  "appStore (consoleError message w) = appStore w"
  "hostCalls (consoleError message w) = hostCalls w"
  "liveProcesses (consoleError message w) = liveProcesses w"
  "listeners (consoleError message w) = listeners w"
  "nextId (consoleError message w) = nextId w"
  by (simp_all add: consoleError_def)

lemma killProcess_frame [simp]:
  "modulePromise (killProcess pid cause outcome w) = modulePromise w"
  "webcontainerInstance (killProcess pid cause outcome w) = webcontainerInstance w"
  "installProcess (killProcess pid cause outcome w) = installProcess w"
  "devProcess (killProcess pid cause outcome w) = devProcess w"
  "listenersBound (killProcess pid cause outcome w) = listenersBound w"
  "installTerminationCause (killProcess pid cause outcome w) = installTerminationCause w"
  "devTerminationCause (killProcess pid cause outcome w) = devTerminationCause w"
  "appStore (killProcess pid cause outcome w) = appStore w"
  "browserConsole (killProcess pid cause outcome w) = browserConsole w"
  "listeners (killProcess pid cause outcome w) = listeners w"
  "nextId (killProcess pid cause outcome w) = nextId w"
  by (simp_all add: killProcess_def)

lemma processExited_frame [simp]:
  "modulePromise (processExited pid w) = modulePromise w"
  "webcontainerInstance (processExited pid w) = webcontainerInstance w"
  "installProcess (processExited pid w) = installProcess w"
  "devProcess (processExited pid w) = devProcess w"
  "listenersBound (processExited pid w) = listenersBound w"
  "installTerminationCause (processExited pid w) = installTerminationCause w"
  "devTerminationCause (processExited pid w) = devTerminationCause w"
  "appStore (processExited pid w) = appStore w"
  "browserConsole (processExited pid w) = browserConsole w"
  "hostCalls (processExited pid w) = hostCalls w"
  "listeners (processExited pid w) = listeners w"
  "nextId (processExited pid w) = nextId w"
  by (simp_all add: processExited_def)

lemma teardownInstance_frame [simp]:
  "modulePromise (teardownInstance inst outcome w) = modulePromise w"
  "webcontainerInstance (teardownInstance inst outcome w) = webcontainerInstance w"
  "installProcess (teardownInstance inst outcome w) = installProcess w"
  "devProcess (teardownInstance inst outcome w) = devProcess w"
  "listenersBound (teardownInstance inst outcome w) = listenersBound w"
  "installTerminationCause (teardownInstance inst outcome w) = installTerminationCause w"
  "devTerminationCause (teardownInstance inst outcome w) = devTerminationCause w"
  "appStore (teardownInstance inst outcome w) = appStore w"
  "browserConsole (teardownInstance inst outcome w) = browserConsole w"
  "listeners (teardownInstance inst outcome w) = listeners w"
  "nextId (teardownInstance inst outcome w) = nextId w"
  by (simp_all add: teardownInstance_def)

lemma updateState_store [simp]:
  "webContainer (appStore (updateState patch w)) = patch (webContainer (appStore w))"
  "consoleLines (appStore (updateState patch w)) = consoleLines (appStore w)"
  "fileTree (appStore (updateState patch w)) = fileTree (appStore w)"
  by (simp_all add: updateState_def setWebContainerState_def)

lemma pushLog_store [simp]:
  "webContainer (appStore (pushLog txt lvl w))
     = (webContainer (appStore w))
         \<lparr>logs := logs (webContainer (appStore w)) @ [\<lparr>line_text = txt, line_level = lvl\<rparr>]\<rparr>"
  "consoleLines (appStore (pushLog txt lvl w))
     = consoleLines (appStore w) @ [\<lparr>line_text = txt, line_level = lvl\<rparr>]"
  "fileTree (appStore (pushLog txt lvl w)) = fileTree (appStore w)"
  by (simp_all add: pushLog_def pushConsoleLine_def)

lemma consoleError_console [simp]:
  "browserConsole (consoleError message w) = browserConsole w @ [message]"
  by (simp add: consoleError_def)

lemma killProcess_calls [simp]:
  "hostCalls (killProcess pid cause outcome w) = hostCalls w @ [Kill pid cause]"
  by (simp add: killProcess_def)

lemma teardownInstance_calls [simp]:
  "hostCalls (teardownInstance inst outcome w) = hostCalls w @ [Teardown inst]"
  by (simp add: teardownInstance_def)

section \<open>The create-react-app dependency signal\<close>






section \<open>The process output classifier\<close>

lemma foldl_pushLog_console:
  "consoleLines (appStore (foldl (\<lambda>acc line. pushLog (line_text line) (line_level line) acc)
                             w ls))
     = consoleLines (appStore w) @ ls"
  by (induction ls arbitrary: w) simp_all

lemma installOnChunk_console:
  "consoleLines (appStore (installOnChunk chunk w)) = consoleLines (appStore w)"
  by (simp add: installOnChunk_def Let_def)

lemma levelOf_ignoring_case:
  "levelOf line =
     (if containsIgnoringCase line ''error'' \<or> containsIgnoringCase line ''err!'' then lvl_error
      else if containsIgnoringCase line ''warn'' then lvl_warn
      else lvl_info)"
proof -
  have "str_includes (toLowerCase line) ''error'' = containsIgnoringCase line ''error''"
    by (rule includes_lower_iff) simp
  moreover have "str_includes (toLowerCase line) ''err!'' = containsIgnoringCase line ''err!''"
    by (rule includes_lower_iff) simp
  moreover have "str_includes (toLowerCase line) ''warn'' = containsIgnoringCase line ''warn''"
    by (rule includes_lower_iff) simp
  ultimately show ?thesis
    by (simp add: levelOf_def Let_def)
qed

lemmas classifier_defs =
  chunkLines_def levelOf_def trimEnd_def whiteSpace1_def whiteSpace2_def whiteSpace3_def
  toLowerCase_def toLowerCase_char_def

text \<open>
  C8. A chunk is split on its line breaks: the pieces contain no line feed, and put back
  together with a line feed, or a carriage return and a line feed, after each piece but
  the last they give the chunk, a bare line feed standing only where no carriage return
  precedes it. Each piece is trimmed at its end: what is cut off is white space, and what
  is left does not end in white space. The empty results are dropped, and every remaining
  line is logged once, in order, at level error when it contains \<open>error\<close> or \<open>err!\<close>
  ignoring case, else warn when it contains \<open>warn\<close>, else info. The chunk
  \<open>npm WARN deprecated foo\<close>, line feed, \<open>Done\<close>, line feed gives two lines, the first
  warn, the second info.
\<close>

theorem chunkLines_classifies:
  "(\<exists>pairs lastPiece.
       splitLines chunk = map fst pairs @ [lastPiece]
       \<and> chunk = concat (map (\<lambda>(piece, sep). piece @ sep) pairs) @ lastPiece
       \<and> (\<forall>(piece, sep) \<in> set pairs.
             CHR 0x0A \<notin> set piece
             \<and> (sep = [CHR 0x0A] \<and> (piece = [] \<or> last piece \<noteq> CHR 0x0D)
                 \<or> sep = [CHR 0x0D, CHR 0x0A]))
       \<and> CHR 0x0A \<notin> set lastPiece)
   \<and> (\<exists>codes. set codes \<subseteq> set ecmaWhiteSpace \<and> piece = trimEnd piece @ concat codes)
   \<and> (\<forall>code \<in> set ecmaWhiteSpace. \<not> suffix code (trimEnd piece))
   \<and> chunkLines chunk
       = map (\<lambda>line. \<lparr>line_text = line,
                       line_level =
                         (if containsIgnoringCase line ''error''
                             \<or> containsIgnoringCase line ''err!'' then lvl_error
                          else if containsIgnoringCase line ''warn'' then lvl_warn
                          else lvl_info)\<rparr>)
           (filter (\<lambda>line. line \<noteq> []) (map trimEnd (splitLines chunk)))
   \<and> consoleLines (appStore (pipeWrite (\<lambda>c v. v) chunk w))
       = consoleLines (appStore w) @ chunkLines chunk
   \<and> consoleLines (appStore (pipeWrite installOnChunk chunk w))
       = consoleLines (appStore w) @ chunkLines chunk
   \<and> chunkLines ''npm WARN deprecated foo\<newline>Done\<newline>''
       = [\<lparr>line_text = ''npm WARN deprecated foo'', line_level = lvl_warn\<rparr>,
          \<lparr>line_text = ''Done'', line_level = lvl_info\<rparr>]"
proof -
  have a: "\<exists>pairs lastPiece.
       splitLines chunk = map fst pairs @ [lastPiece]
       \<and> chunk = concat (map (\<lambda>(piece, sep). piece @ sep) pairs) @ lastPiece
       \<and> (\<forall>(piece, sep) \<in> set pairs.
             CHR 0x0A \<notin> set piece
             \<and> (sep = [CHR 0x0A] \<and> (piece = [] \<or> last piece \<noteq> CHR 0x0D)
                 \<or> sep = [CHR 0x0D, CHR 0x0A]))
       \<and> CHR 0x0A \<notin> set lastPiece"
    using splitLines_spec [of chunk] unfolding lineBreaks_def .
  have b: "\<exists>codes. set codes \<subseteq> set ecmaWhiteSpace \<and> piece = trimEnd piece @ concat codes"
    by (rule trimEnd_tail)
  have c: "\<forall>code \<in> set ecmaWhiteSpace. \<not> suffix code (trimEnd piece)"
    using trimEnd_no_white_suffix by blast
  have d: "chunkLines chunk
       = map (\<lambda>line. \<lparr>line_text = line,
                       line_level =
                         (if containsIgnoringCase line ''error''
                             \<or> containsIgnoringCase line ''err!'' then lvl_error
                          else if containsIgnoringCase line ''warn'' then lvl_warn
                          else lvl_info)\<rparr>)
           (filter (\<lambda>line. line \<noteq> []) (map trimEnd (splitLines chunk)))"
    by (simp add: chunkLines_def levelOf_ignoring_case)
  have e: "consoleLines (appStore (pipeWrite (\<lambda>c v. v) chunk w))
       = consoleLines (appStore w) @ chunkLines chunk"
    by (simp add: pipeWrite_def foldl_pushLog_console)
  have f: "consoleLines (appStore (pipeWrite installOnChunk chunk w))
       = consoleLines (appStore w) @ chunkLines chunk"
    by (simp add: pipeWrite_def foldl_pushLog_console installOnChunk_console)
  have g: "chunkLines ''npm WARN deprecated foo\<newline>Done\<newline>''
       = [\<lparr>line_text = ''npm WARN deprecated foo'', line_level = lvl_warn\<rparr>,
          \<lparr>line_text = ''Done'', line_level = lvl_info\<rparr>]"
    by (simp add: classifier_defs)
  from a b c d e f g show ?thesis by blast
qed

text \<open>
  A chunk with a no-break space and a carriage return before its line feed: the line is
  logged without them, at level error; the space is in the list of white space and the
  logged line does not end in it.
\<close>

theorem chunkLines_classifies_witness:
  "[CHR 0xC2, CHR 0xA0] \<in> set ecmaWhiteSpace
   \<and> \<not> suffix [CHR 0xC2, CHR 0xA0]
         (trimEnd (''ERR! code E404'' @ [CHR 0xC2, CHR 0xA0, CHR 0x0D]))
   \<and> consoleLines (appStore (pipeWrite installOnChunk
        (''ERR! code E404'' @ [CHR 0xC2, CHR 0xA0, CHR 0x0D, CHR 0x0A] @ ''ok'') initialWorld))
      = [\<lparr>line_text = ''ERR! code E404'', line_level = lvl_error\<rparr>,
         \<lparr>line_text = ''ok'', line_level = lvl_info\<rparr>]"
proof -
  have m: "[CHR 0xC2, CHR 0xA0] \<in> set ecmaWhiteSpace"
    by (simp add: ecmaWhiteSpace_def)
  have v: "chunkLines (''ERR! code E404'' @ [CHR 0xC2, CHR 0xA0, CHR 0x0D, CHR 0x0A] @ ''ok'')
             = [\<lparr>line_text = ''ERR! code E404'', line_level = lvl_error\<rparr>,
                \<lparr>line_text = ''ok'', line_level = lvl_info\<rparr>]"
    by (simp add: classifier_defs)
  have i: "consoleLines (appStore initialWorld) = []"
    by (simp add: initialWorld_def)
  from chunkLines_classifies
    [of "''ERR! code E404'' @ [CHR 0xC2, CHR 0xA0, CHR 0x0D, CHR 0x0A] @ ''ok''"
        "''ERR! code E404'' @ [CHR 0xC2, CHR 0xA0, CHR 0x0D]" initialWorld]
  have "(\<forall>code \<in> set ecmaWhiteSpace.
            \<not> suffix code (trimEnd (''ERR! code E404'' @ [CHR 0xC2, CHR 0xA0, CHR 0x0D])))
        \<and> consoleLines (appStore (pipeWrite installOnChunk
             (''ERR! code E404'' @ [CHR 0xC2, CHR 0xA0, CHR 0x0D, CHR 0x0A] @ ''ok'')
             initialWorld))
          = consoleLines (appStore initialWorld)
              @ chunkLines (''ERR! code E404'' @ [CHR 0xC2, CHR 0xA0, CHR 0x0D, CHR 0x0A]
                              @ ''ok'')"
    by blast
  with m v i show ?thesis by simp
qed

lemma reportError_post:
  "status (webContainer (appStore (reportError e w))) = status_error"
  "error (webContainer (appStore (reportError e w))) = Some (errorMessage e)"
  "lastMessage (webContainer (appStore (reportError e w))) = Some (errorMessage e)"
  "consoleLines (appStore (reportError e w))
     = consoleLines (appStore w) @ [\<lparr>line_text = errorMessage e, line_level = lvl_error\<rparr>]"
  by (simp_all add: reportError_def Let_def)



lemma launchResume_outcome:
  "launchResume env ctx code w =
     (Settled, case launchResumeTry env ctx code w of
                 (Inl e, w1) \<Rightarrow> reportError e w1
               | (Inr u, w1) \<Rightarrow> w1)"
  by (simp add: launchResume_def split: prod.splits sum.splits)





text \<open>
  C9. Without a live install process \<open>cancelInstallation\<close> returns the world unchanged.
  With one, the kill request goes out with the termination cause already set to user, the
  handle is cleared, the status is idle with the cancellation message, and a failure of
  the kill call only adds a line to the browser console. In no case does the call reject.
\<close>

theorem cancelInstallation_contract:
  "(installProcess w = None \<longrightarrow> cancelInstallation k w = Inr w)
   \<and> (\<forall>p. installProcess w = Some p \<longrightarrow>
         (\<exists>w'. cancelInstallation k w = Inr w'
            \<and> hostCalls w' = hostCalls w @ [Kill p (Some user)]
            \<and> installTerminationCause w' = Some user
            \<and> installProcess w' = None
            \<and> status (webContainer (appStore w')) = idle
            \<and> lastMessage (webContainer (appStore w')) = Some ''Installation cancelled by user.''
            \<and> installProgress (webContainer (appStore w')) = 0
            \<and> installPhase (webContainer (appStore w')) = None
            \<and> consoleLines (appStore w') = consoleLines (appStore w)
                 @ [\<lparr>line_text = ''Dependency installation cancelled by user request.'',
                     line_level = lvl_warn\<rparr>]
            \<and> browserConsole w' = browserConsole w
                 @ (case k of None \<Rightarrow> [] | Some e \<Rightarrow> [''Failed to cancel installation''])))
   \<and> (\<exists>w'. cancelInstallation k w = Inr w')"
  by (cases "installProcess w"; cases k) (simp_all add: cancelInstallation_def Let_def)

theorem cancelInstallation_contract_witness:
  "installProcess initialWorld = None
   \<and> cancelInstallation None initialWorld = Inr initialWorld
   \<and> installProcess (initialWorld\<lparr>installProcess := Some 1\<rparr>) = Some 1
   \<and> (\<exists>w'. cancelInstallation (Some (JsError ''kill failed''))
              (initialWorld\<lparr>installProcess := Some 1\<rparr>) = Inr w'
          \<and> hostCalls w' = [Kill 1 (Some user)]
          \<and> installProcess w' = None
          \<and> status (webContainer (appStore w')) = idle
          \<and> browserConsole w' = [''Failed to cancel installation''])"
proof -
  have a: "installProcess initialWorld = None"
    by (simp add: initialWorld_def)
  have b: "installProcess (initialWorld\<lparr>installProcess := Some 1\<rparr>) = Some 1"
    by simp
  have c: "hostCalls (initialWorld\<lparr>installProcess := Some 1\<rparr>) = []"
    "browserConsole (initialWorld\<lparr>installProcess := Some 1\<rparr>) = []"
    by (simp_all add: initialWorld_def)
  from cancelInstallation_contract [of initialWorld None] a
  have d: "cancelInstallation None initialWorld = Inr initialWorld" by blast
  from cancelInstallation_contract
    [of "initialWorld\<lparr>installProcess := Some 1\<rparr>" "Some (JsError ''kill failed'')"] b c
  have "\<exists>w'. cancelInstallation (Some (JsError ''kill failed''))
              (initialWorld\<lparr>installProcess := Some 1\<rparr>) = Inr w'
          \<and> hostCalls w' = [Kill 1 (Some user)]
          \<and> installProcess w' = None
          \<and> status (webContainer (appStore w')) = idle
          \<and> browserConsole w' = [''Failed to cancel installation'']"
    by fastforce
  with a b d show ?thesis by blast
qed

section \<open>The launch sequence\<close>

lemmas scenario_defs = run_defs nextContext_def viteContext_def firstLaunchWorld_def
  supersededEarly_def supersededLate_def showNat.simps digitChar_def

lemma launchPrologue_frame [simp]:
  "hostCalls (launchPrologue repo w) = hostCalls w"
  "liveProcesses (launchPrologue repo w) = liveProcesses w"
  "installProcess (launchPrologue repo w) = installProcess w"
  "nextId (launchPrologue repo w) = nextId w"
  by (simp_all add: launchPrologue_def Let_def)

lemma reportError_frame [simp]:
  "hostCalls (reportError e w) = hostCalls w"
  "liveProcesses (reportError e w) = liveProcesses w"
  "installProcess (reportError e w) = installProcess w"
  by (simp_all add: reportError_def Let_def)

















text \<open>
  C4, as the specification states it, fails for a synchronized Vite project: the inferred
  port is 5173, the dev server is started with \<open>PORT\<close> 5173, and the provisional preview
  port is 3000.
\<close>

theorem preview_port_not_inferred_counterexample:
  "launchWorkspace (browserEnv viteManifest) exampleRepository initialWorld
     = (AwaitingInstall viteContext,
        snd (launchWorkspace (browserEnv viteManifest) exampleRepository initialWorld))
   \<and> port (ctx_devCommand viteContext) = 5173
   \<and> previewPort (webContainer (appStore (snd
        (launchResume (browserEnv viteManifest) viteContext 0
           (snd (launchWorkspace (browserEnv viteManifest) exampleRepository initialWorld))))))
       = Some 3000
   \<and> last (hostCalls (snd
        (launchResume (browserEnv viteManifest) viteContext 0
           (snd (launchWorkspace (browserEnv viteManifest) exampleRepository initialWorld)))))
       = Spawn 0 2 ''npm'' [''run'', ''dev''] [(''PORT'', ''5173''), (''BROWSER'', ''none'')]"
  by (simp add: scenario_defs Let_def)

text \<open>
  C4, amended. In every launch that reaches the dev-server spawn (the install process
  exited with code 0 and was not cancelled by the user, and the spawn succeeds), right
  after the spawn the provisional preview port is 3000 when the repository was
  synchronized, and the declared default port of the template when the template fallback
  was used; the inferred port goes to the dev process as \<open>PORT\<close>. The server-ready signal
  then replaces the provisional port by the reported one.
\<close>

theorem launchResume_publishes_port_hint:
  assumes "installTerminationCause w \<noteq> Some user" and "devSpawnOutcome env = None"
  shows "\<exists>w'. launchResume env ctx 0 w = (Settled, w')
           \<and> previewPort (webContainer (appStore w'))
               = Some (if ctx_usedFallback ctx
                       then defaultPort (WORKSPACE_TEMPLATES (starterFiles env)
                              (case workspaceTemplateId (ctx_repository ctx) of
                                 None \<Rightarrow> nextjs_starter
                               | Some t \<Rightarrow> t))
                       else 3000)
           \<and> status (webContainer (appStore w')) = starting_dev_server
           \<and> devProcess w' = Some (nextId w)
           \<and> hostCalls w' = hostCalls w
               @ [Spawn (ctx_instance ctx) (nextId w) (command (ctx_devCommand ctx))
                    (args (ctx_devCommand ctx))
                    ((if port (ctx_devCommand ctx) \<noteq> 0
                      then [(''PORT'', showNat (port (ctx_devCommand ctx)))] else [])
                     @ [(''BROWSER'', ''none'')])]
           \<and> previewPort (webContainer (appStore (onServerReady prt url w'))) = Some prt"
proof -
  have hint: "portHintOf env ctx
               = (if ctx_usedFallback ctx
                  then defaultPort (WORKSPACE_TEMPLATES (starterFiles env)
                         (case workspaceTemplateId (ctx_repository ctx) of
                            None \<Rightarrow> nextjs_starter
                          | Some t \<Rightarrow> t))
                  else 3000)"
    by (cases "workspaceTemplateId (ctx_repository ctx)";
        cases "case workspaceTemplateId (ctx_repository ctx) of
                 None \<Rightarrow> nextjs_starter | Some t \<Rightarrow> t")
       (simp_all add: portHintOf_def getWorkspaceTemplateById_def WORKSPACE_TEMPLATES_def)
  have ready: "previewPort (webContainer (appStore (onServerReady prt url v))) = Some prt" for v
    by (simp add: onServerReady_def)
  have "launchResumeTry env ctx 0 w
          = runDevServer env (ctx_instance ctx) (ctx_devCommand ctx) (portHintOf env ctx)
              (pushLog (''Starting dev server via '' @ display (ctx_devCommand ctx) @ ellipsis)
                 lvl_info
                 (updateState
                    (\<lambda>s. s\<lparr>status := starting_dev_server, installProgress := 100,
                            installPhase := None,
                            lastMessage := Some (''Starting dev server (''
                                                   @ display (ctx_devCommand ctx) @ '')''
                                                   @ ellipsis)\<rparr>)
                    (snd (runInstall_resume 0 (processExited (ctx_process ctx) w)))))"
    using assms(1)
    by (simp add: launchResumeTry_def runInstall_resume_def Let_def)
  moreover have "hostCalls (snd (runInstall_resume 0 (processExited (ctx_process ctx) w)))
                   = hostCalls w
                 \<and> nextId (snd (runInstall_resume 0 (processExited (ctx_process ctx) w)))
                   = nextId w"
    by (simp add: runInstall_resume_def Let_def)
  ultimately show ?thesis
    using assms(2) ready
    by (simp add: launchResume_outcome runDevServer_def spawnProcess_def bindInstanceEvents_def
        Let_def hint)
qed

theorem launchResume_publishes_port_hint_witness:
  "installTerminationCause firstLaunchWorld \<noteq> Some user
   \<and> devSpawnOutcome (browserEnv nextManifest) = None
   \<and> (\<exists>w'. launchResume (browserEnv nextManifest)
              (nextContext\<lparr>ctx_usedFallback := True,
                 ctx_repository := exampleRepository
                   \<lparr>workspaceTemplateId := Some vite_react_starter\<rparr>\<rparr>) 0 firstLaunchWorld
            = (Settled, w')
          \<and> previewPort (webContainer (appStore w')) = Some 5173
          \<and> devProcess w' = Some 2)"
proof -
  have a: "installTerminationCause firstLaunchWorld \<noteq> Some user"
    by (simp add: scenario_defs Let_def)
  have b: "devSpawnOutcome (browserEnv nextManifest) = None"
    by (simp add: browserEnv_def)
  have n: "nextId firstLaunchWorld = 2"
    by (simp add: scenario_defs Let_def)
  from launchResume_publishes_port_hint [OF a b,
      of "nextContext\<lparr>ctx_usedFallback := True,
            ctx_repository := exampleRepository
              \<lparr>workspaceTemplateId := Some vite_react_starter\<rparr>\<rparr>"]
  obtain w' where w:
    "launchResume (browserEnv nextManifest)
       (nextContext\<lparr>ctx_usedFallback := True,
          ctx_repository := exampleRepository
            \<lparr>workspaceTemplateId := Some vite_react_starter\<rparr>\<rparr>) 0 firstLaunchWorld
       = (Settled, w')"
    "previewPort (webContainer (appStore w'))
       = Some (if ctx_usedFallback
                    (nextContext\<lparr>ctx_usedFallback := True,
                       ctx_repository := exampleRepository
                         \<lparr>workspaceTemplateId := Some vite_react_starter\<rparr>\<rparr>)
               then defaultPort (WORKSPACE_TEMPLATES (starterFiles (browserEnv nextManifest))
                      (case workspaceTemplateId
                              (ctx_repository
                                 (nextContext\<lparr>ctx_usedFallback := True,
                                    ctx_repository := exampleRepository
                                      \<lparr>workspaceTemplateId := Some vite_react_starter\<rparr>\<rparr>)) of
                         None \<Rightarrow> nextjs_starter
                       | Some t \<Rightarrow> t))
               else 3000)"
    "devProcess w' = Some (nextId firstLaunchWorld)"
    by blast
  from w(2) have p: "previewPort (webContainer (appStore w')) = Some 5173"
    by (simp add: WORKSPACE_TEMPLATES_def)
  from w(1) p w(3) n a b show ?thesis
    by auto
qed

text \<open>
  C1. The first launch waits for its install process; a second launch tears it down:
  the cause is set to restart, the process is killed, the instance torn down. The killed
  process exits with code 137 and the first launch goes on from its wait. Whether that
  happens before the second launch goes on or after it has started its own install
  process, the first launch ends in the error state with the install-failure message; in
  the second case it also clears the handle of the second install process, which is
  alive.
\<close>

theorem superseded_install_reported_as_error:
  "fst (launchWorkspace (browserEnv nextManifest) exampleRepository initialWorld)
     = AwaitingInstall nextContext
   \<and> installProcess firstLaunchWorld = Some 1
   \<and> liveProcesses firstLaunchWorld = [(1, 0)]
   \<and> hostCalls (prepareFreshInstance (browserEnv nextManifest) firstLaunchWorld)
       = hostCalls firstLaunchWorld @ [Kill 1 (Some restart), Teardown 0]
   \<and> installTerminationCause (prepareFreshInstance (browserEnv nextManifest) firstLaunchWorld)
       = Some restart
   \<and> liveProcesses (prepareFreshInstance (browserEnv nextManifest) firstLaunchWorld) = []
   \<and> status (webContainer (appStore supersededEarly)) = status_error
   \<and> error (webContainer (appStore supersededEarly))
       = Some ''Dependency installation failed with exit code 137. Check the console for details.''
   \<and> last (consoleLines (appStore supersededEarly))
       = \<lparr>line_text = ''Dependency installation failed with exit code 137. Check the console for details.'',
          line_level = lvl_error\<rparr>
   \<and> status (webContainer (appStore supersededLate)) = status_error
   \<and> error (webContainer (appStore supersededLate))
       = Some ''Dependency installation failed with exit code 137. Check the console for details.''
   \<and> installProcess supersededLate = None
   \<and> liveProcesses supersededLate = [(3, 2)]"
  by (simp add: scenario_defs Let_def)

section \<open>Failures of a launch\<close>



lemma launchPrologue_module [simp]:
  "webcontainerInstance (launchPrologue repo w) = webcontainerInstance w"
  "modulePromise (launchPrologue repo w) = modulePromise w"
  by (simp_all add: launchPrologue_def Let_def)















end
